theory Spec2Isabelle
  imports Main
begin

section \<open>Configuration (main.go, lines 24-88)\<close>

text \<open>
  The \<open>Config\<close> struct of main.go. Go's \<open>int\<close> fields are modelled as \<open>int\<close>: the only
  arithmetic the program does on them is the loop counter of the retry loop, which stays
  below \<open>MaxRetries\<close> and therefore never wraps.
\<close>

record Config =
  NumConnections :: int
  RequiresAuth :: bool
  AuthToken :: string
  ModelName :: string
  DatasetName :: string
  Branch :: string
  Storage :: string
  OneFolderPerFilter :: bool
  SkipSHA :: bool
  MaxRetries :: int
  RetryInterval :: int
  JustDownload :: bool
  SilentMode :: bool
  UseR2 :: bool
  R2BucketName :: string
  R2AccountID :: string
  R2AccessKey :: string
  R2SecretKey :: string
  SkipLocal :: bool
  R2Subfolder :: string
  HFPrefix :: string
  MaxWorkers :: int

text \<open>\<open>DefaultConfig\<close>: the fields the literal does not mention hold Go's zero values.\<close>

definition DefaultConfig :: Config where
  "DefaultConfig =
     \<lparr> NumConnections = 5, RequiresAuth = False, AuthToken = [], ModelName = [],
       DatasetName = [], Branch = ''main'', Storage = ''./'', OneFolderPerFilter = False,
       SkipSHA = False, MaxRetries = 3, RetryInterval = 5, JustDownload = False,
       SilentMode = False, UseR2 = False, R2BucketName = [], R2AccountID = [],
       R2AccessKey = [], R2SecretKey = [], SkipLocal = False,
       R2Subfolder = ''hf_dataset'', HFPrefix = [], MaxWorkers = 16 \<rparr>"

text \<open>
  The process environment. \<open>os.Getenv\<close> returns the empty string for a variable that is
  not set.
\<close>

type_synonym environ = "string \<rightharpoonup> string"

definition Getenv :: "environ \<Rightarrow> string \<Rightarrow> string" where
  "Getenv e k = (case e k of None \<Rightarrow> [] | Some v \<Rightarrow> v)"

text \<open>
  The configuration file is a JSON object; every member that names a field of \<open>Config\<close>
  (by its json tag) is one \<open>json_member\<close>. \<open>json.Unmarshal\<close> into the struct that already
  holds the defaults stores the members in the order of the document (a later duplicate
  wins) and leaves every field the document does not mention as it was.
\<close>

datatype json_member =
    J_num_connections int
  | J_requires_auth bool
  | J_auth_token string
  | J_model_name string
  | J_dataset_name string
  | J_branch string
  | J_storage string
  | J_one_folder_per_filter bool
  | J_skip_sha bool
  | J_max_retries int
  | J_retry_interval int
  | J_just_download bool
  | J_silent_mode bool
  | J_use_r2 bool
  | J_r2_bucket_name string
  | J_r2_account_id string
  | J_r2_access_key string
  | J_r2_secret_key string
  | J_skip_local bool
  | J_r2_subfolder string
  | J_hf_prefix string
  | J_max_workers int

fun store_member :: "json_member \<Rightarrow> Config \<Rightarrow> Config" where
  "store_member (J_num_connections v) c = c\<lparr>NumConnections := v\<rparr>"
| "store_member (J_requires_auth v) c = c\<lparr>RequiresAuth := v\<rparr>"
| "store_member (J_auth_token v) c = c\<lparr>AuthToken := v\<rparr>"
| "store_member (J_model_name v) c = c\<lparr>ModelName := v\<rparr>"
| "store_member (J_dataset_name v) c = c\<lparr>DatasetName := v\<rparr>"
| "store_member (J_branch v) c = c\<lparr>Branch := v\<rparr>"
| "store_member (J_storage v) c = c\<lparr>Storage := v\<rparr>"
| "store_member (J_one_folder_per_filter v) c = c\<lparr>OneFolderPerFilter := v\<rparr>"
| "store_member (J_skip_sha v) c = c\<lparr>SkipSHA := v\<rparr>"
| "store_member (J_max_retries v) c = c\<lparr>MaxRetries := v\<rparr>"
| "store_member (J_retry_interval v) c = c\<lparr>RetryInterval := v\<rparr>"
| "store_member (J_just_download v) c = c\<lparr>JustDownload := v\<rparr>"
| "store_member (J_silent_mode v) c = c\<lparr>SilentMode := v\<rparr>"
| "store_member (J_use_r2 v) c = c\<lparr>UseR2 := v\<rparr>"
| "store_member (J_r2_bucket_name v) c = c\<lparr>R2BucketName := v\<rparr>"
| "store_member (J_r2_account_id v) c = c\<lparr>R2AccountID := v\<rparr>"
| "store_member (J_r2_access_key v) c = c\<lparr>R2AccessKey := v\<rparr>"
| "store_member (J_r2_secret_key v) c = c\<lparr>R2SecretKey := v\<rparr>"
| "store_member (J_skip_local v) c = c\<lparr>SkipLocal := v\<rparr>"
| "store_member (J_r2_subfolder v) c = c\<lparr>R2Subfolder := v\<rparr>"
| "store_member (J_hf_prefix v) c = c\<lparr>HFPrefix := v\<rparr>"
| "store_member (J_max_workers v) c = c\<lparr>MaxWorkers := v\<rparr>"

text \<open>
  What \<open>os.ReadFile\<close> finds at \<open><home>/.config/hfdownloader.json\<close>: no file, a file that
  cannot be read for another reason, or its bytes, which either parse as a JSON object
  for \<open>Config\<close> or do not.
\<close>

datatype json_doc = Malformed | JsonObject "json_member list"

datatype file_read = NotExist | ReadError | FileBytes json_doc

datatype load_error = NoHomeDir | ParseError

definition Unmarshal :: "json_doc \<Rightarrow> Config \<Rightarrow> load_error + Config" where
  "Unmarshal d c =
     (case d of Malformed \<Rightarrow> Inl ParseError | JsonObject ms \<Rightarrow> Inr (fold store_member ms c))"

text \<open>
  Lines 81-85: the environment variable \<open>HFDOWNLOADER_JUST_DOWNLOAD\<close> set to \<open>1\<close> or
  \<open>true\<close> forces the storage path.
\<close>

definition justDownloadOverride :: "environ \<Rightarrow> Config \<Rightarrow> Config" where
  "justDownloadOverride e c =
     (let envVar = Getenv e ''HFDOWNLOADER_JUST_DOWNLOAD'' in
      if envVar = ''1'' \<or> envVar = ''true'' then c\<lparr>Storage := ''./''\<rparr> else c)"

text \<open>
  \<open>LoadConfig\<close>. The first argument is the result of \<open>os.UserHomeDir\<close> (\<open>None\<close> when it
  fails). A missing file returns the defaults at once, before the environment variable is
  looked at; a read error other than a missing file falls through to the environment
  check with the defaults, as the \<open>if/else if\<close> of the source does.
\<close>

definition LoadConfig :: "string option \<Rightarrow> file_read \<Rightarrow> environ \<Rightarrow> load_error + Config" where
  "LoadConfig home file e =
     (case home of
        None \<Rightarrow> Inl NoHomeDir
      | Some h \<Rightarrow>
          (case file of
             NotExist \<Rightarrow> Inr DefaultConfig
           | ReadError \<Rightarrow> Inr (justDownloadOverride e DefaultConfig)
           | FileBytes d \<Rightarrow>
               (case Unmarshal d DefaultConfig of
                  Inl err \<Rightarrow> Inl err
                | Inr c \<Rightarrow> Inr (justDownloadOverride e c))))"

section \<open>Command-line flags (main.go, lines 120-125 and 273-310)\<close>

text \<open>
  The variables the flags are bound to: the configuration and the four locals of \<open>main\<close>.
\<close>

record Cli =
  cfg :: Config
  justDownload :: bool
  install :: bool
  installPath :: string
  cleanupCorrupted :: bool

text \<open>
  Registering a flag with \<open>StringVar(&x, name, value, usage)\<close> (and its \<open>Bool\<close>, \<open>Int\<close> and
  \<open>P\<close> variants) stores \<open>value\<close> in \<open>x\<close>: that is how the flag library gives an unset flag
  its default. The registrations of lines 274-288 and 309 pass the field itself as the
  value, which leaves the loaded field as it is. The registrations of lines 302-307 and
  310 pass a literal.
\<close>

definition registerFlags :: "Config \<Rightarrow> Cli" where
  "registerFlags c =
     \<lparr> cfg = c\<lparr> UseR2 := False, R2BucketName := [], R2AccountID := [],
                R2AccessKey := [], R2SecretKey := [], SkipLocal := False,
                HFPrefix := [] \<rparr>,
       justDownload = JustDownload c,
       install = False,
       installPath = ''/usr/local/bin/'',
       cleanupCorrupted = False \<rparr>"

text \<open>One constructor per registered flag, carrying the value given on the command line.\<close>

datatype flag =
    F_model string
  | F_dataset string
  | F_branch string
  | F_storage string
  | F_concurrent int
  | F_token string
  | F_appendFilterFolder bool
  | F_skipSHA bool
  | F_maxRetries int
  | F_retryInterval int
  | F_justDownload bool
  | F_install bool
  | F_installPath string
  | F_silentMode bool
  | F_r2 bool
  | F_r2_bucket string
  | F_r2_account string
  | F_r2_access_key string
  | F_r2_secret_key string
  | F_skip_local bool
  | F_cleanup_corrupted bool
  | F_r2_subfolder string
  | F_hf_prefix string

fun setFlag :: "flag \<Rightarrow> Cli \<Rightarrow> Cli" where
  "setFlag (F_model v) s = s\<lparr>cfg := (cfg s)\<lparr>ModelName := v\<rparr>\<rparr>"
| "setFlag (F_dataset v) s = s\<lparr>cfg := (cfg s)\<lparr>DatasetName := v\<rparr>\<rparr>"
| "setFlag (F_branch v) s = s\<lparr>cfg := (cfg s)\<lparr>Branch := v\<rparr>\<rparr>"
| "setFlag (F_storage v) s = s\<lparr>cfg := (cfg s)\<lparr>Storage := v\<rparr>\<rparr>"
| "setFlag (F_concurrent v) s = s\<lparr>cfg := (cfg s)\<lparr>MaxWorkers := v\<rparr>\<rparr>"
| "setFlag (F_token v) s = s\<lparr>cfg := (cfg s)\<lparr>AuthToken := v\<rparr>\<rparr>"
| "setFlag (F_appendFilterFolder v) s = s\<lparr>cfg := (cfg s)\<lparr>OneFolderPerFilter := v\<rparr>\<rparr>"
| "setFlag (F_skipSHA v) s = s\<lparr>cfg := (cfg s)\<lparr>SkipSHA := v\<rparr>\<rparr>"
| "setFlag (F_maxRetries v) s = s\<lparr>cfg := (cfg s)\<lparr>MaxRetries := v\<rparr>\<rparr>"
| "setFlag (F_retryInterval v) s = s\<lparr>cfg := (cfg s)\<lparr>RetryInterval := v\<rparr>\<rparr>"
| "setFlag (F_justDownload v) s = s\<lparr>justDownload := v\<rparr>"
| "setFlag (F_install v) s = s\<lparr>install := v\<rparr>"
| "setFlag (F_installPath v) s = s\<lparr>installPath := v\<rparr>"
| "setFlag (F_silentMode v) s = s\<lparr>cfg := (cfg s)\<lparr>SilentMode := v\<rparr>\<rparr>"
| "setFlag (F_r2 v) s = s\<lparr>cfg := (cfg s)\<lparr>UseR2 := v\<rparr>\<rparr>"
| "setFlag (F_r2_bucket v) s = s\<lparr>cfg := (cfg s)\<lparr>R2BucketName := v\<rparr>\<rparr>"
| "setFlag (F_r2_account v) s = s\<lparr>cfg := (cfg s)\<lparr>R2AccountID := v\<rparr>\<rparr>"
| "setFlag (F_r2_access_key v) s = s\<lparr>cfg := (cfg s)\<lparr>R2AccessKey := v\<rparr>\<rparr>"
| "setFlag (F_r2_secret_key v) s = s\<lparr>cfg := (cfg s)\<lparr>R2SecretKey := v\<rparr>\<rparr>"
| "setFlag (F_skip_local v) s = s\<lparr>cfg := (cfg s)\<lparr>SkipLocal := v\<rparr>\<rparr>"
| "setFlag (F_cleanup_corrupted v) s = s\<lparr>cleanupCorrupted := v\<rparr>"
| "setFlag (F_r2_subfolder v) s = s\<lparr>cfg := (cfg s)\<lparr>R2Subfolder := v\<rparr>\<rparr>"
| "setFlag (F_hf_prefix v) s = s\<lparr>cfg := (cfg s)\<lparr>HFPrefix := v\<rparr>\<rparr>"

definition parseFlags :: "flag list \<Rightarrow> Cli \<Rightarrow> Cli" where
  "parseFlags fs s = fold setFlag fs s"

text \<open>
  The variables as the body of the command finds them: configuration loaded, flags
  registered, command line parsed.
\<close>

definition startup :: "string option \<Rightarrow> file_read \<Rightarrow> environ \<Rightarrow> flag list \<Rightarrow> load_error + Cli" where
  "startup home file e fs =
     (case LoadConfig home file e of
        Inl err \<Rightarrow> Inl err
      | Inr c \<Rightarrow> Inr (parseFlags fs (registerFlags c)))"

section \<open>What the program does to the outside world\<close>

text \<open>
  The descriptor \<open>hfd.R2Config\<close> with the six fields the literal of lines 226-233 sets,
  and the thirteen arguments of \<open>hfd.DownloadModel\<close> in the order of lines 247-261.
\<close>

record R2Config =
  AccountID :: string
  AccessKeyID :: string
  AccessKeySecret :: string
  BucketName :: string
  Region :: string
  Subfolder :: string

record DownloadArgs =
  modelName :: string
  appendFilterToPath :: bool
  skipSHA :: bool
  isDataset :: bool
  destinationPath :: string
  modelBranch :: string
  concurrentConnections :: int
  token :: string
  silentMode :: bool
  r2cfg :: "R2Config option"
  skipLocal :: bool
  hfPrefix :: string
  maxWorkers :: int

text \<open>
  Everything the program prints, every call it makes to the download engine, to the
  cleanup scanner and to the file system during installation, and every sleep, is one
  event; a run returns the list of its events in the order they happen.
\<close>

datatype event =
    PrintDeprecation
  | PrintModel string
  | PrintDataset string
  | ShowHelp
  | PrintSettings string string int bool bool string
  | CallCleanup R2Config string int
  | PrintCleanupCompleted
  | CallDownload DownloadArgs
  | PrintWarning int int string
  | Sleep int
  | PrintCompleted string
  | SysStat string
  | SysRemove string
  | SysOpen string
  | SysOpenFile string
  | SysIoCopy string
  | PrintRequireSudo string
  | RunSudo string
  | LogInstalled string

fun isDownload :: "event \<Rightarrow> bool" where
  "isDownload (CallDownload a) = True"
| "isDownload _ = False"

fun isCleanup :: "event \<Rightarrow> bool" where
  "isCleanup (CallCleanup r p n) = True"
| "isCleanup _ = False"

fun isWarning :: "event \<Rightarrow> bool" where
  "isWarning (PrintWarning i n err) = True"
| "isWarning _ = False"

fun isSleep :: "event \<Rightarrow> bool" where
  "isSleep (Sleep n) = True"
| "isSleep _ = False"

fun isSudo :: "event \<Rightarrow> bool" where
  "isSudo (RunSudo c) = True"
| "isSudo _ = False"

fun isMutation :: "event \<Rightarrow> bool" where
  "isMutation (SysRemove p) = True"
| "isMutation (SysOpenFile p) = True"
| "isMutation (SysIoCopy p) = True"
| "isMutation (RunSudo c) = True"
| "isMutation _ = False"

definition occurrences :: "(event \<Rightarrow> bool) \<Rightarrow> event list \<Rightarrow> nat" where
  "occurrences P tr = length (filter P tr)"

text \<open>How a run ends.\<close>

datatype os_error = PermissionDenied | OtherError string

datatype install_error = UnsupportedPlatform | OsFailure os_error

datatype run_error =
    ArgsError
  | UsageError
  | DownloadFailed string int

datatype fatal =
    FatalLoadConfig load_error
  | FatalInstall install_error
  | FatalR2Credentials
  | FatalCleanup string
  | FatalRun run_error

datatype panic = IndexOutOfRange | NilDereference

datatype outcome =
    Returned "run_error option"
  | Exit0
  | Fatal fatal
  | Panic panic

section \<open>Auth-token resolution (main.go, lines 156-164 and 187-195)\<close>

text \<open>
  One pass of the block that both line 156 and line 187 start: the token of the
  configuration, else \<open>HF_TOKEN\<close>, else \<open>HUGGING_FACE_HUB_TOKEN\<close> with the deprecation
  notice when that one is not empty. It returns the updated configuration and what it
  printed.
\<close>

definition resolveAuthToken :: "environ \<Rightarrow> Config \<Rightarrow> Config \<times> event list" where
  "resolveAuthToken e c =
     (if AuthToken c = [] then
        (let c1 = c\<lparr>AuthToken := Getenv e ''HF_TOKEN''\<rparr> in
         if AuthToken c1 = [] then
           (let c2 = c1\<lparr>AuthToken := Getenv e ''HUGGING_FACE_HUB_TOKEN''\<rparr> in
            if AuthToken c2 \<noteq> [] then (c2, [PrintDeprecation]) else (c2, []))
         else (c1, []))
      else (c, []))"

section \<open>The install procedure (main.go, lines 317-389)\<close>

text \<open>
  The operating system as \<open>installBinary\<close> sees it: the platform name, the result of
  \<open>os.Executable\<close>, the two path functions, and the result of each system call, \<open>None\<close>
  for success. Each call is made at most once in a run, so that a result which depends on
  the path alone loses nothing.
\<close>

record InstallOS =
  GOOS :: string
  Executable :: "os_error + string"
  Base :: "string \<Rightarrow> string"
  Join :: "string \<Rightarrow> string \<Rightarrow> string"
  Stat :: "string \<Rightarrow> os_error option"
  Remove :: "string \<Rightarrow> os_error option"
  Open :: "string \<Rightarrow> os_error option"
  OpenFile :: "string \<Rightarrow> os_error option"
  IoCopy :: "string \<Rightarrow> os_error option"
  Sudo :: "string \<Rightarrow> os_error option"

definition IsPermission :: "os_error \<Rightarrow> bool" where
  "IsPermission err = (err = PermissionDenied)"

text \<open>\<open>copyFile\<close>: open the destination (create, truncate, mode 0755), then copy.\<close>

definition copyFile :: "InstallOS \<Rightarrow> string \<Rightarrow> os_error option \<times> event list" where
  "copyFile os dst =
     (case OpenFile os dst of
        Some err \<Rightarrow> (Some err, [SysOpenFile dst])
      | None \<Rightarrow>
          (case IoCopy os dst of
             Some err \<Rightarrow> (Some err, [SysOpenFile dst, SysIoCopy dst])
           | None \<Rightarrow> (None, [SysOpenFile dst, SysIoCopy dst])))"

definition sudoCommand :: "string \<Rightarrow> string \<Rightarrow> string" where
  "sudoCommand dst exePath = ''rm -f '' @ dst @ '' && cp '' @ exePath @ '' '' @ dst"

text \<open>
  The last part of \<open>installBinary\<close> (lines 362-372), given the flag \<open>needsSudo\<close> and the
  events so far.
\<close>

definition finishInstall ::
  "InstallOS \<Rightarrow> string \<Rightarrow> string \<Rightarrow> string \<Rightarrow> bool \<Rightarrow> event list
     \<Rightarrow> install_error option \<times> event list" where
  "finishInstall os ipath exePath dst needsSudo tr =
     (if needsSudo then
        (case Sudo os (sudoCommand dst exePath) of
           Some err \<Rightarrow>
             (Some (OsFailure err), tr @ [PrintRequireSudo ipath, RunSudo (sudoCommand dst exePath)])
         | None \<Rightarrow>
             (None, tr @ [PrintRequireSudo ipath, RunSudo (sudoCommand dst exePath),
                          LogInstalled dst]))
      else (None, tr @ [LogInstalled dst]))"

text \<open>
  The middle part (lines 345-360): open the running executable, try the copy.
\<close>

definition copyStep ::
  "InstallOS \<Rightarrow> string \<Rightarrow> string \<Rightarrow> string \<Rightarrow> bool \<Rightarrow> event list
     \<Rightarrow> install_error option \<times> event list" where
  "copyStep os ipath exePath dst needsSudo tr =
     (case Open os exePath of
        Some err \<Rightarrow> (Some (OsFailure err), tr @ [SysOpen exePath])
      | None \<Rightarrow>
          (case copyFile os dst of
             (Some err, tc) \<Rightarrow>
               (if IsPermission err
                then finishInstall os ipath exePath dst True (tr @ [SysOpen exePath] @ tc)
                else (Some (OsFailure err), tr @ [SysOpen exePath] @ tc))
           | (None, tc) \<Rightarrow>
               finishInstall os ipath exePath dst needsSudo (tr @ [SysOpen exePath] @ tc)))"

text \<open>
  \<open>installBinary\<close>. Any error of \<open>os.Stat\<close> means that there is nothing to remove.
\<close>

definition installBinary :: "InstallOS \<Rightarrow> string \<Rightarrow> install_error option \<times> event list" where
  "installBinary os ipath =
     (if GOOS os = ''windows'' then (Some UnsupportedPlatform, [])
      else
        (case Executable os of
           Inl err \<Rightarrow> (Some (OsFailure err), [])
         | Inr exePath \<Rightarrow>
             (let dst = Join os ipath (Base os exePath) in
              if Stat os dst = None then
                (case Remove os dst of
                   Some err \<Rightarrow>
                     (if IsPermission err
                      then copyStep os ipath exePath dst True [SysStat dst, SysRemove dst]
                      else (Some (OsFailure err), [SysStat dst, SysRemove dst]))
                 | None \<Rightarrow> copyStep os ipath exePath dst False [SysStat dst, SysRemove dst])
              else copyStep os ipath exePath dst False [SysStat dst])))"

section \<open>Storage target, cleanup and the retry loop (main.go, lines 200-269)\<close>

text \<open>
  Lines 200-234. \<open>log.Fatal\<close> ends the process; \<open>Inr None\<close> is the nil pointer that
  \<open>r2cfg\<close> keeps when the toggle is off.
\<close>

definition assembleR2 :: "environ \<Rightarrow> Config \<Rightarrow> fatal + R2Config option" where
  "assembleR2 e c =
     (if UseR2 c then
        (let accountID = Getenv e ''R2_ACCOUNT_ID'';
             accessKey = Getenv e ''R2_WRITE_ACCESS_KEY_ID'';
             secretKey = Getenv e ''R2_WRITE_SECRET_ACCESS_KEY''
         in if accountID = [] \<or> accessKey = [] \<or> secretKey = [] then Inl FatalR2Credentials
            else
              (let bucketName =
                     (if R2BucketName c = [] then
                        (if Getenv e ''R2_BUCKET_NAME'' = [] then accountID
                         else Getenv e ''R2_BUCKET_NAME'')
                      else R2BucketName c);
                   subfolder = (if R2Subfolder c = [] then ''hf_dataset'' else R2Subfolder c)
               in Inr (Some \<lparr> AccountID = accountID, AccessKeyID = accessKey,
                               AccessKeySecret = secretKey, BucketName = bucketName,
                               Region = ''auto'', Subfolder = subfolder \<rparr>)))
      else Inr None)"

text \<open>
  Lines 236-244. Reading \<open>r2cfg.Subfolder\<close> through a nil pointer panics. The second
  argument is the result of \<open>hfd.CleanupCorruptedFiles\<close> (\<open>None\<close> for success).
\<close>

definition cleanupPrefix :: "R2Config \<Rightarrow> string" where
  "cleanupPrefix r = Subfolder r @ ''/''"

definition cleanupBranch ::
  "R2Config option \<Rightarrow> string option \<Rightarrow> Config \<Rightarrow> outcome \<times> event list" where
  "cleanupBranch r2 res c =
     (case r2 of
        None \<Rightarrow> (Panic NilDereference, [])
      | Some r \<Rightarrow>
          (case res of
             Some err \<Rightarrow>
               (Fatal (FatalCleanup err), [CallCleanup r (cleanupPrefix r) (NumConnections c)])
           | None \<Rightarrow>
               (Returned None,
                [CallCleanup r (cleanupPrefix r) (NumConnections c), PrintCleanupCompleted])))"

text \<open>
  Lines 246-269. \<open>dl k\<close> is the result of the call number \<open>k\<close> (from 0) of
  \<open>hfd.DownloadModel\<close>: \<open>None\<close> for success, the error text otherwise. The loop variable \<open>i\<close>
  and the events so far are the state of the loop.
\<close>

function retryLoop ::
  "(nat \<Rightarrow> string option) \<Rightarrow> Config \<Rightarrow> DownloadArgs \<Rightarrow> int \<Rightarrow> event list
     \<Rightarrow> outcome \<times> event list" where
  "retryLoop dl c a i tr =
     (if i < MaxRetries c then
        (case dl (nat i) of
           Some err \<Rightarrow>
             retryLoop dl c a (i + 1)
               (tr @ [CallDownload a, PrintWarning (i + 1) (MaxRetries c) err,
                      Sleep (RetryInterval c)])
         | None \<Rightarrow> (Returned None, tr @ [CallDownload a, PrintCompleted (modelName a)]))
      else (Returned (Some (DownloadFailed (modelName a) (MaxRetries c))), tr))"
  by pat_completeness auto
termination
  by (relation "measure (\<lambda>(dl, c, a, i, tr). nat (MaxRetries c - i))") auto

declare retryLoop.simps [simp del]

definition downloadArgs :: "Config \<Rightarrow> string \<Rightarrow> bool \<Rightarrow> R2Config option \<Rightarrow> DownloadArgs" where
  "downloadArgs c target ds r2 =
     \<lparr> modelName = target, appendFilterToPath = OneFolderPerFilter c, skipSHA = SkipSHA c,
       isDataset = ds, destinationPath = Storage c, modelBranch = Branch c,
       concurrentConnections = NumConnections c, token = AuthToken c,
       silentMode = SilentMode c, r2cfg = r2, skipLocal = SkipLocal c,
       hfPrefix = HFPrefix c, maxWorkers = MaxWorkers c \<rparr>"

section \<open>The body of the root command (main.go, lines 139-270)\<close>

text \<open>
  What a run meets outside the program: the environment, the variables of the \<open>.env\<close>
  file of the working directory (\<open>godotenv.Load\<close> sets each one that the environment does
  not have yet, and ignores a missing file), the operating system of the install
  procedure, and the results of the download engine and of the cleanup scanner.
\<close>

record World =
  env :: environ
  dotenv :: environ
  ios :: InstallOS
  DownloadModel :: "nat \<Rightarrow> string option"
  CleanupCorruptedFiles :: "string option"

definition godotenvLoad :: "environ \<Rightarrow> environ \<Rightarrow> environ" where
  "godotenvLoad file e = file ++ e"

text \<open>
  Lines 185-269: what happens once the target \<open>ModelOrDataSet\<close> and the flag \<open>IsDataset\<close>
  are known.
\<close>

definition runTarget :: "World \<Rightarrow> Cli \<Rightarrow> Config \<Rightarrow> string \<Rightarrow> bool \<Rightarrow> outcome \<times> event list" where
  "runTarget w s c target ds =
     (let e = godotenvLoad (dotenv w) (env w);
          (c', t) = resolveAuthToken e c;
          tr = t @ [PrintSettings (Branch c') (Storage c') (NumConnections c')
                      (OneFolderPerFilter c') (SkipSHA c') (AuthToken c')]
      in case assembleR2 e c' of
           Inl f \<Rightarrow> (Fatal f, tr)
         | Inr r2 \<Rightarrow>
             (if cleanupCorrupted s then
                (case cleanupBranch r2 (CleanupCorruptedFiles w) c' of
                   (out, tc) \<Rightarrow> (out, tr @ tc))
              else retryLoop (DownloadModel w) c' (downloadArgs c' target ds r2) 0 tr))"

text \<open>
  \<open>RunE\<close>, lines 145-183. \<open>args[0]\<close> on an empty argument list is an index out of range.
  A successful install ends the process with \<open>os.Exit(0)\<close>, a failed one with
  \<open>log.Fatal\<close>.
\<close>

definition RunE :: "World \<Rightarrow> Cli \<Rightarrow> string list \<Rightarrow> outcome \<times> event list" where
  "RunE w s args =
     (case (if justDownload s then
              (case args of
                 [] \<Rightarrow> Inl IndexOutOfRange
               | a0 # rest \<Rightarrow> Inr ((cfg s)\<lparr>ModelName := a0, Storage := ''./''\<rparr>))
            else Inr (cfg s)) of
        Inl p \<Rightarrow> (Panic p, [])
      | Inr c0 \<Rightarrow>
          (let (c, t) = resolveAuthToken (env w) c0 in
           if install s then
             (case installBinary (ios w) (installPath s) of
                (Some err, ti) \<Rightarrow> (Fatal (FatalInstall err), t @ ti)
              | (None, ti) \<Rightarrow> (Exit0, t @ ti))
           else if ModelName c \<noteq> [] then
             (case runTarget w s c (ModelName c) False of
                (out, tr) \<Rightarrow> (out, t @ [PrintModel (ModelName c)] @ tr))
           else if DatasetName c \<noteq> [] then
             (case runTarget w s c (DatasetName c) True of
                (out, tr) \<Rightarrow> (out, t @ [PrintDataset (DatasetName c)] @ tr))
           else (Returned (Some UsageError), t @ [ShowHelp])))"

text \<open>
  \<open>rootCmd.Execute\<close> for the root command: the \<open>Args\<close> check of lines 139-144, then
  \<open>RunE\<close>.
\<close>

definition Execute :: "World \<Rightarrow> Cli \<Rightarrow> string list \<Rightarrow> outcome \<times> event list" where
  "Execute w s args =
     (if justDownload s \<and> length args < 1 then (Returned (Some ArgsError), [])
      else RunE w s args)"

text \<open>
  \<open>main\<close> for the root command: a configuration that does not load and an error that
  \<open>Execute\<close> returns both end in \<open>log.Fatal\<close>. The banner of lines 126-133, the
  subcommand \<open>generate-config\<close> and the errors of the flag parser itself are left out.
\<close>

definition main ::
  "string option \<Rightarrow> file_read \<Rightarrow> World \<Rightarrow> flag list \<Rightarrow> string list \<Rightarrow> outcome \<times> event list" where
  "main home file w fs args =
     (case startup home file (env w) fs of
        Inl err \<Rightarrow> (Fatal (FatalLoadConfig err), [])
      | Inr s \<Rightarrow>
          (case Execute w s args of
             (Returned (Some err), tr) \<Rightarrow> (Fatal (FatalRun err), tr)
           | (out, tr) \<Rightarrow> (out, tr)))"

section \<open>Notions used in the statements\<close>

text \<open>Whether the elevated command was run.\<close>

definition sudoInvoked :: "event list \<Rightarrow> bool" where
  "sudoInvoked tr = list_ex isSudo tr"

text \<open>
  The result of the removal of an existing destination (\<open>None\<close> also when \<open>os.Stat\<close> found
  nothing to remove), and the events of lines 333-343.
\<close>

definition removeResult :: "InstallOS \<Rightarrow> string \<Rightarrow> os_error option" where
  "removeResult os dst = (if Stat os dst = None then Remove os dst else None)"

definition removeEvents :: "InstallOS \<Rightarrow> string \<Rightarrow> event list" where
  "removeEvents os dst =
     (if Stat os dst = None then [SysStat dst, SysRemove dst] else [SysStat dst])"

text \<open>
  Both names empty: the dataset name is empty, and so is the model name, which with \<open>-j\<close>
  and a positional argument is that argument (lines 146-149), and otherwise, also with
  \<open>-j\<close> and no argument, the one of the configuration.
\<close>

definition namesEmpty :: "Cli \<Rightarrow> string list \<Rightarrow> bool" where
  "namesEmpty s args =
     (DatasetName (cfg s) = [] \<and>
      (if justDownload s
       then (case args of [] \<Rightarrow> ModelName (cfg s) = [] | a0 # rest \<Rightarrow> a0 = [])
       else ModelName (cfg s) = []))"

text \<open>
  The run gets as far as a target: the \<open>Args\<close> check passes (with \<open>-j\<close> there is a
  positional argument) and, after the assignment of lines 146-149, the model name or the
  dataset name is not empty.
\<close>

definition targetSet :: "Cli \<Rightarrow> string list \<Rightarrow> bool" where
  "targetSet s args =
     (if justDownload s
      then (case args of [] \<Rightarrow> False | a0 # rest \<Rightarrow> a0 \<noteq> [] \<or> DatasetName (cfg s) \<noteq> [])
      else ModelName (cfg s) \<noteq> [] \<or> DatasetName (cfg s) \<noteq> [])"

text \<open>The number of path separators a string ends with.\<close>

definition trailingSeps :: "string \<Rightarrow> nat" where
  "trailingSeps p = length (takeWhile (\<lambda>ch. ch = CHR ''/'') (rev p))"

definition isHelp :: "event \<Rightarrow> bool" where
  "isHelp ev = (ev = ShowHelp)"

section \<open>Example inputs\<close>

text \<open>A download engine that fails twice and then succeeds, and one that always fails.\<close>

definition flaky :: "nat \<Rightarrow> string option" where
  "flaky k = (if k < 2 then Some ''timeout'' else None)"

definition offline :: "nat \<Rightarrow> string option" where
  "offline k = Some ''no route to host''"

text \<open>
  A Linux machine on which nothing is installed yet and every call succeeds, and
  variations of it: a destination that exists in a directory only root may write, a
  destination that cannot be removed for another reason, an executable that cannot be
  opened, a full disk, an executable that cannot be located, and Windows.
\<close>

definition linuxOS :: InstallOS where
  "linuxOS =
     \<lparr> GOOS = ''linux'', Executable = Inr ''/home/u/hfdownloader'',
       Base = (\<lambda>p. ''hfdownloader''), Join = (\<lambda>d f. d @ f),
       Stat = (\<lambda>p. Some (OtherError ''no such file or directory'')),
       Remove = (\<lambda>p. None), Open = (\<lambda>p. None), OpenFile = (\<lambda>p. None),
       IoCopy = (\<lambda>p. None), Sudo = (\<lambda>c. None) \<rparr>"

definition rootOwnedOS :: InstallOS where
  "rootOwnedOS =
     linuxOS\<lparr> Stat := (\<lambda>p. None), Remove := (\<lambda>p. Some PermissionDenied),
              OpenFile := (\<lambda>p. Some PermissionDenied) \<rparr>"

definition busyOS :: InstallOS where
  "busyOS =
     linuxOS\<lparr> Stat := (\<lambda>p. None), Remove := (\<lambda>p. Some (OtherError ''text file busy'')) \<rparr>"

definition unreadableOS :: InstallOS where
  "unreadableOS = linuxOS\<lparr> Open := (\<lambda>p. Some PermissionDenied) \<rparr>"

definition diskFullOS :: InstallOS where
  "diskFullOS = linuxOS\<lparr> IoCopy := (\<lambda>p. Some (OtherError ''no space left on device'')) \<rparr>"

definition noExeOS :: InstallOS where
  "noExeOS = linuxOS\<lparr> Executable := Inl (OtherError ''cannot find executable'') \<rparr>"

definition windowsOS :: InstallOS where
  "windowsOS = linuxOS\<lparr> GOOS := ''windows'' \<rparr>"

text \<open>
  An environment with the three credentials of the remote storage, one without them, and
  the worlds built from them.
\<close>

definition r2Env :: environ where
  "r2Env =
     [''R2_ACCOUNT_ID'' \<mapsto> ''acct'', ''R2_WRITE_ACCESS_KEY_ID'' \<mapsto> ''key'',
      ''R2_WRITE_SECRET_ACCESS_KEY'' \<mapsto> ''secret'']"

definition r2Target :: R2Config where
  "r2Target =
     \<lparr> AccountID = ''acct'', AccessKeyID = ''key'', AccessKeySecret = ''secret'',
       BucketName = ''acct'', Region = ''auto'', Subfolder = ''hf_dataset'' \<rparr>"

definition plainWorld :: World where
  "plainWorld =
     \<lparr> env = Map.empty, dotenv = Map.empty, ios = linuxOS, DownloadModel = flaky,
       CleanupCorruptedFiles = None \<rparr>"

definition r2World :: World where
  "r2World = plainWorld\<lparr> env := r2Env \<rparr>"

definition windowsWorld :: World where
  "windowsWorld = plainWorld\<lparr> ios := windowsOS \<rparr>"

text \<open>
  Command lines, on a machine without a configuration file: no flag at all,
  \<open>-i\<close>, \<open>-j\<close>, \<open>--r2\<close>, \<open>--r2 -i\<close>, \<open>-m gpt2 --r2\<close>,
  \<open>-m gpt2 --cleanup-corrupted\<close>, and
  \<open>-d squad --r2 --r2-subfolder data/ --cleanup-corrupted\<close>.
\<close>

definition noFlagsCli :: Cli where
  "noFlagsCli = parseFlags [] (registerFlags DefaultConfig)"

definition installCli :: Cli where
  "installCli = parseFlags [F_install True] (registerFlags DefaultConfig)"

definition justDownloadCli :: Cli where
  "justDownloadCli = parseFlags [F_justDownload True] (registerFlags DefaultConfig)"

definition r2NoTargetCli :: Cli where
  "r2NoTargetCli = parseFlags [F_r2 True] (registerFlags DefaultConfig)"

definition r2InstallCli :: Cli where
  "r2InstallCli = parseFlags [F_r2 True, F_install True] (registerFlags DefaultConfig)"

definition r2Cli :: Cli where
  "r2Cli = parseFlags [F_model ''gpt2'', F_r2 True] (registerFlags DefaultConfig)"

definition cleanupOnlyCli :: Cli where
  "cleanupOnlyCli =
     parseFlags [F_model ''gpt2'', F_cleanup_corrupted True] (registerFlags DefaultConfig)"

definition cleanupR2Cli :: Cli where
  "cleanupR2Cli =
     parseFlags [F_dataset ''squad'', F_r2 True, F_r2_subfolder ''data/'',
                 F_cleanup_corrupted True] (registerFlags DefaultConfig)"

section \<open>Precedence of flags, file and defaults\<close>

lemma occurrences_Nil [simp]: "occurrences P [] = 0"
  by (simp add: occurrences_def)

lemma occurrences_Cons [simp]:
  "occurrences P (ev # tr) = (if P ev then Suc (occurrences P tr) else occurrences P tr)"
  by (simp add: occurrences_def)

lemma occurrences_append [simp]:
  "occurrences P (xs @ ys) = occurrences P xs + occurrences P ys"
  by (simp add: occurrences_def)

text \<open>
  Registration keeps what \<open>LoadConfig\<close> returned in the fields whose flag is registered
  with the field as default, and in the two fields that have no flag.
\<close>

lemma registerFlags_keeps:
  "ModelName (cfg (registerFlags c)) = ModelName c"
  "DatasetName (cfg (registerFlags c)) = DatasetName c"
  "Branch (cfg (registerFlags c)) = Branch c"
  "Storage (cfg (registerFlags c)) = Storage c"
  "MaxWorkers (cfg (registerFlags c)) = MaxWorkers c"
  "AuthToken (cfg (registerFlags c)) = AuthToken c"
  "OneFolderPerFilter (cfg (registerFlags c)) = OneFolderPerFilter c"
  "SkipSHA (cfg (registerFlags c)) = SkipSHA c"
  "MaxRetries (cfg (registerFlags c)) = MaxRetries c"
  "RetryInterval (cfg (registerFlags c)) = RetryInterval c"
  "SilentMode (cfg (registerFlags c)) = SilentMode c"
  "R2Subfolder (cfg (registerFlags c)) = R2Subfolder c"
  "NumConnections (cfg (registerFlags c)) = NumConnections c"
  "RequiresAuth (cfg (registerFlags c)) = RequiresAuth c"
  "justDownload (registerFlags c) = JustDownload c"
  by (simp_all add: registerFlags_def)

text \<open>It replaces the seven fields whose flag is registered with a literal.\<close>

lemma registerFlags_resets:
  "UseR2 (cfg (registerFlags c)) = False"
  "R2BucketName (cfg (registerFlags c)) = []"
  "R2AccountID (cfg (registerFlags c)) = []"
  "R2AccessKey (cfg (registerFlags c)) = []"
  "R2SecretKey (cfg (registerFlags c)) = []"
  "SkipLocal (cfg (registerFlags c)) = False"
  "HFPrefix (cfg (registerFlags c)) = []"
  by (simp_all add: registerFlags_def)

text \<open>
  Parsing changes a field only through a flag for it: without \<open>--r2\<close> on the command
  line the toggle is off whatever the file says, while without \<open>--r2-subfolder\<close> the
  subfolder of the file stays. The last occurrence of a flag wins.
\<close>

lemma parseFlags_without_r2:
  "\<forall>v. F_r2 v \<notin> set fs \<Longrightarrow> UseR2 (cfg (parseFlags fs s)) = UseR2 (cfg s)"
  unfolding parseFlags_def
proof (induction fs arbitrary: s)
  case Nil
  show ?case by simp
next
  case (Cons f fs)
  have "UseR2 (cfg (setFlag f s)) = UseR2 (cfg s)"
    using Cons.prems by (cases f) auto
  with Cons show ?case by simp
qed

lemma parseFlags_without_r2_subfolder:
  "\<forall>v. F_r2_subfolder v \<notin> set fs \<Longrightarrow> R2Subfolder (cfg (parseFlags fs s)) = R2Subfolder (cfg s)"
  unfolding parseFlags_def
proof (induction fs arbitrary: s)
  case Nil
  show ?case by simp
next
  case (Cons f fs)
  have "R2Subfolder (cfg (setFlag f s)) = R2Subfolder (cfg s)"
    using Cons.prems by (cases f) auto
  with Cons show ?case by simp
qed

lemma toggle_of_file_is_never_used:
  "\<forall>v. F_r2 v \<notin> set fs \<Longrightarrow> \<not> UseR2 (cfg (parseFlags fs (registerFlags c)))"
  by (simp add: parseFlags_without_r2 registerFlags_resets)

lemma subfolder_of_file_is_kept:
  "\<forall>v. F_r2_subfolder v \<notin> set fs \<Longrightarrow>
   R2Subfolder (cfg (parseFlags fs (registerFlags c))) = R2Subfolder c"
  by (simp add: parseFlags_without_r2_subfolder registerFlags_keeps)

lemma last_flag_wins:
  "UseR2 (cfg (parseFlags (fs @ [F_r2 v]) s)) = v"
  "R2Subfolder (cfg (parseFlags (fs @ [F_r2_subfolder p]) s)) = p"
  by (simp_all add: parseFlags_def)

text \<open>
  Claim C1: a value from a flag overrides the value from the configuration file, which
  overrides the default, and a field set only in the file keeps the value of the file.
  The code does not do this for the fields of lines 302-307 and 310. With the
  configuration file
  \<open>{"use_r2": true, "r2_bucket_name": "models", "r2_subfolder": "weights"}\<close> and the
  command line \<open>-m gpt2\<close>, the subfolder of the file is kept, and the remote-storage
  toggle and the bucket name of the file are gone.
\<close>

theorem file_only_r2_settings_are_dropped:
  "map_sum id
     (\<lambda>s. (ModelName (cfg s), R2Subfolder (cfg s), UseR2 (cfg s), R2BucketName (cfg s)))
     (startup (Some ''/home/u'')
        (FileBytes (JsonObject
           [J_use_r2 True, J_r2_bucket_name ''models'', J_r2_subfolder ''weights'']))
        Map.empty [F_model ''gpt2''])
   = Inr (''gpt2'', ''weights'', False, [])"
  by (simp add: startup_def LoadConfig_def Unmarshal_def justDownloadOverride_def Getenv_def
      registerFlags_def parseFlags_def DefaultConfig_def)

section \<open>The auth token\<close>

lemma resolveAuthToken_keeps [simp]:
  "UseR2 (fst (resolveAuthToken e c)) = UseR2 c"
  "ModelName (fst (resolveAuthToken e c)) = ModelName c"
  "DatasetName (fst (resolveAuthToken e c)) = DatasetName c"
  by (simp_all add: resolveAuthToken_def Let_def)

lemma resolveAuthToken_trace:
  "snd (resolveAuthToken e c) = [] \<or> snd (resolveAuthToken e c) = [PrintDeprecation]"
  by (simp add: resolveAuthToken_def Let_def)

lemma resolveAuthToken_quiet [simp]:
  "occurrences isDownload (snd (resolveAuthToken e c)) = 0"
  "occurrences isCleanup (snd (resolveAuthToken e c)) = 0"
  "occurrences isMutation (snd (resolveAuthToken e c)) = 0"
  "occurrences isHelp (snd (resolveAuthToken e c)) = 0"
  using resolveAuthToken_trace [of e c] by (auto simp: isHelp_def)

text \<open>
  Claim C4: the token is the explicit one if it is not empty, else \<open>HF_TOKEN\<close>, else
  \<open>HUGGING_FACE_HUB_TOKEN\<close>; the result is a function of the explicit token and the
  environment, no other field changes, and the deprecation notice is printed once when
  the deprecated variable supplies the token and not at all otherwise.
\<close>

theorem auth_token_precedence:
  "fst (resolveAuthToken e c) =
     c\<lparr>AuthToken :=
         (if AuthToken c \<noteq> [] then AuthToken c
          else if Getenv e ''HF_TOKEN'' \<noteq> [] then Getenv e ''HF_TOKEN''
          else Getenv e ''HUGGING_FACE_HUB_TOKEN'')\<rparr>
   \<and> snd (resolveAuthToken e c) =
       (if AuthToken c = [] \<and> Getenv e ''HF_TOKEN'' = []
           \<and> Getenv e ''HUGGING_FACE_HUB_TOKEN'' \<noteq> []
        then [PrintDeprecation] else [])"
  by (simp add: resolveAuthToken_def Let_def)

text \<open>
  The block runs twice in a run, before and after the \<open>.env\<close> file is loaded. A second
  pass over a token that the first pass has set prints nothing.
\<close>

lemma resolveAuthToken_second_pass:
  "AuthToken (fst (resolveAuthToken e c)) \<noteq> [] \<Longrightarrow>
   resolveAuthToken e' (fst (resolveAuthToken e c)) = (fst (resolveAuthToken e c), [])"
  by (simp add: resolveAuthToken_def [of e'])

section \<open>The retry loop\<close>

lemma retryLoop_fail:
  "i < MaxRetries c \<Longrightarrow> dl (nat i) = Some err \<Longrightarrow>
   retryLoop dl c a i tr =
     retryLoop dl c a (i + 1)
       (tr @ [CallDownload a, PrintWarning (i + 1) (MaxRetries c) err, Sleep (RetryInterval c)])"
  by (subst retryLoop.simps) simp

lemma retryLoop_success:
  "i < MaxRetries c \<Longrightarrow> dl (nat i) = None \<Longrightarrow>
   retryLoop dl c a i tr = (Returned None, tr @ [CallDownload a, PrintCompleted (modelName a)])"
  by (subst retryLoop.simps) simp

lemma retryLoop_exhausted:
  "\<not> i < MaxRetries c \<Longrightarrow>
   retryLoop dl c a i tr = (Returned (Some (DownloadFailed (modelName a) (MaxRetries c))), tr)"
  by (subst retryLoop.simps) simp

text \<open>The loop never panics and never ends the process by itself.\<close>

lemma retryLoop_returns: "\<exists>r. fst (retryLoop dl c a i tr) = Returned r"
proof (induction dl c a i tr rule: retryLoop.induct)
  case (1 dl c a i tr)
  show ?case
  proof (cases "i < MaxRetries c")
    case False
    then show ?thesis by (simp add: retryLoop_exhausted)
  next
    case True
    show ?thesis
    proof (cases "dl (nat i)")
      case None
      with True show ?thesis by (simp add: retryLoop_success)
    next
      case (Some err)
      with True "1.IH" show ?thesis by (simp add: retryLoop_fail)
    qed
  qed
qed

lemma retryLoop_no_panic: "fst (retryLoop dl c a i tr) \<noteq> Panic p"
  using retryLoop_returns [of dl c a i tr] by auto

lemma retry_twice_then_success:
  assumes "MaxRetries c = 3" and "dl 0 = Some e0" and "dl 1 = Some e1" and "dl 2 = None"
  shows "retryLoop dl c a 0 tr =
           (Returned None,
            tr @ [CallDownload a, PrintWarning 1 3 e0, Sleep (RetryInterval c),
                  CallDownload a, PrintWarning 2 3 e1, Sleep (RetryInterval c),
                  CallDownload a, PrintCompleted (modelName a)])"
  using assms by (simp add: retryLoop_fail retryLoop_success)

lemma retry_always_fails:
  assumes "MaxRetries c = 3" and "dl 0 = Some e0" and "dl 1 = Some e1" and "dl 2 = Some e2"
  shows "retryLoop dl c a 0 tr =
           (Returned (Some (DownloadFailed (modelName a) 3)),
            tr @ [CallDownload a, PrintWarning 1 3 e0, Sleep (RetryInterval c),
                  CallDownload a, PrintWarning 2 3 e1, Sleep (RetryInterval c),
                  CallDownload a, PrintWarning 3 3 e2, Sleep (RetryInterval c)])"
  using assms by (simp add: retryLoop_fail retryLoop_exhausted)

text \<open>
  Claim C2: with \<open>MaxRetries = 3\<close>, a download that fails on the first two calls and
  succeeds on the third makes the loop return success after three calls, two warnings
  and two sleeps; a download that fails on every call is called three times, with three
  warnings, and the loop returns the error that names the target and the three attempts.
\<close>

theorem retry_three_attempts:
  assumes "MaxRetries c = 3"
  shows "(dl 0 \<noteq> None \<and> dl 1 \<noteq> None \<and> dl 2 = None \<longrightarrow>
            fst (retryLoop dl c a 0 []) = Returned None
          \<and> occurrences isDownload (snd (retryLoop dl c a 0 [])) = 3
          \<and> occurrences isWarning (snd (retryLoop dl c a 0 [])) = 2
          \<and> occurrences isSleep (snd (retryLoop dl c a 0 [])) = 2)
       \<and> ((\<forall>k. dl k \<noteq> None) \<longrightarrow>
            fst (retryLoop dl c a 0 []) = Returned (Some (DownloadFailed (modelName a) 3))
          \<and> occurrences isDownload (snd (retryLoop dl c a 0 [])) = 3
          \<and> occurrences isWarning (snd (retryLoop dl c a 0 [])) = 3)"
proof (intro conjI impI)
  assume "dl 0 \<noteq> None \<and> dl 1 \<noteq> None \<and> dl 2 = None"
  then obtain e0 e1 where d: "dl 0 = Some e0" "dl 1 = Some e1" "dl 2 = None" by auto
  note r = retry_twice_then_success [OF assms d, of a "[]"]
  show "fst (retryLoop dl c a 0 []) = Returned None" by (simp add: r)
  show "occurrences isDownload (snd (retryLoop dl c a 0 [])) = 3" by (simp add: r)
  show "occurrences isWarning (snd (retryLoop dl c a 0 [])) = 2" by (simp add: r)
  show "occurrences isSleep (snd (retryLoop dl c a 0 [])) = 2" by (simp add: r)
next
  assume "\<forall>k. dl k \<noteq> None"
  then obtain e0 e1 e2 where d: "dl 0 = Some e0" "dl 1 = Some e1" "dl 2 = Some e2"
    by (metis not_None_eq)
  note r = retry_always_fails [OF assms d, of a "[]"]
  show "fst (retryLoop dl c a 0 []) = Returned (Some (DownloadFailed (modelName a) 3))"
    by (simp add: r)
  show "occurrences isDownload (snd (retryLoop dl c a 0 [])) = 3" by (simp add: r)
  show "occurrences isWarning (snd (retryLoop dl c a 0 [])) = 3" by (simp add: r)
qed

theorem retry_three_attempts_witness:
  "MaxRetries DefaultConfig = 3
   \<and> flaky 0 \<noteq> None \<and> flaky 1 \<noteq> None \<and> flaky 2 = None
   \<and> fst (retryLoop flaky DefaultConfig (downloadArgs DefaultConfig ''gpt2'' False None) 0 [])
       = Returned None
   \<and> occurrences isSleep
        (snd (retryLoop flaky DefaultConfig (downloadArgs DefaultConfig ''gpt2'' False None) 0 []))
       = 2
   \<and> (\<forall>k. offline k \<noteq> None)
   \<and> fst (retryLoop offline DefaultConfig (downloadArgs DefaultConfig ''gpt2'' False None) 0 [])
       = Returned (Some (DownloadFailed ''gpt2'' 3))"
proof -
  have m: "MaxRetries DefaultConfig = 3" by (simp add: DefaultConfig_def)
  have f: "flaky 0 \<noteq> None \<and> flaky 1 \<noteq> None \<and> flaky 2 = None" by (simp add: flaky_def)
  have g: "\<forall>k. offline k \<noteq> None" by (simp add: offline_def)
  show ?thesis
    using retry_three_attempts [OF m, of flaky "downloadArgs DefaultConfig ''gpt2'' False None"]
      retry_three_attempts [OF m, of offline "downloadArgs DefaultConfig ''gpt2'' False None"]
      m f g
    by (simp add: downloadArgs_def)
qed

section \<open>The install procedure\<close>

lemma sudoInvoked_simps [simp]:
  "sudoInvoked [] = False"
  "sudoInvoked (ev # tr) = (isSudo ev \<or> sudoInvoked tr)"
  by (simp_all add: sudoInvoked_def)

lemma sudoInvoked_append [simp]: "sudoInvoked (xs @ ys) = (sudoInvoked xs \<or> sudoInvoked ys)"
  by (simp add: sudoInvoked_def list_ex_iff) blast

lemma copyFile_cases:
  "snd (copyFile os dst) = [SysOpenFile dst]
   \<or> snd (copyFile os dst) = [SysOpenFile dst, SysIoCopy dst]"
  by (simp add: copyFile_def split: option.splits)

lemma copyFile_no_sudo: "\<not> sudoInvoked (snd (copyFile os dst))"
  using copyFile_cases [of os dst] by auto

lemma removeEvents_no_sudo [simp]: "\<not> sudoInvoked (removeEvents os dst)"
  by (simp add: removeEvents_def)

lemma finishInstall_plain:
  "finishInstall os ipath exe dst False tr = (None, tr @ [LogInstalled dst])"
  by (simp add: finishInstall_def)

lemma finishInstall_sudo:
  "\<exists>post. snd (finishInstall os ipath exe dst True tr) =
            tr @ [PrintRequireSudo ipath, RunSudo (sudoCommand dst exe)] @ post
          \<and> \<not> sudoInvoked post"
  by (simp add: finishInstall_def split: option.splits)

text \<open>The procedure in one equation, by the results of its steps.\<close>

lemma installBinary_unfold:
  assumes "GOOS os \<noteq> ''windows''" and "Executable os = Inr exe"
    and "dst = Join os ipath (Base os exe)"
  shows "installBinary os ipath =
    (case removeResult os dst of
       Some (OtherError m) \<Rightarrow> (Some (OsFailure (OtherError m)), removeEvents os dst)
     | r \<Rightarrow>
        (case Open os exe of
           Some err \<Rightarrow> (Some (OsFailure err), removeEvents os dst @ [SysOpen exe])
         | None \<Rightarrow>
            (case fst (copyFile os dst) of
               Some (OtherError m) \<Rightarrow>
                 (Some (OsFailure (OtherError m)),
                  removeEvents os dst @ [SysOpen exe] @ snd (copyFile os dst))
             | k \<Rightarrow>
                 finishInstall os ipath exe dst
                   (r = Some PermissionDenied \<or> k = Some PermissionDenied)
                   (removeEvents os dst @ [SysOpen exe] @ snd (copyFile os dst)))))"
  using assms
  by (auto simp: installBinary_def removeResult_def removeEvents_def copyStep_def IsPermission_def
      Let_def split: option.splits os_error.splits prod.splits)

lemma installBinary_quiet [simp]:
  "occurrences isDownload (snd (installBinary os ipath)) = 0"
  "occurrences isCleanup (snd (installBinary os ipath)) = 0"
  "occurrences isHelp (snd (installBinary os ipath)) = 0"
  by (auto simp: installBinary_def copyStep_def copyFile_def finishInstall_def Let_def isHelp_def
      split: option.splits sum.splits)

text \<open>
  Claim C8: the unprivileged removal and copy are attempted first, and the elevated
  command runs only when the removal of the existing file or the copy fails with a
  permission error. If the command runs, every event before it is one of the
  unprivileged path: the check and removal of the destination, the opening of the
  executable, the copy. Without a permission error in removal and copy it never runs.
  A failure that is not a permission error (of the removal, of the copy, and any failure
  to locate or to open the executable) ends the procedure with that error and without
  the elevated command.
\<close>

theorem install_elevation_is_fallback:
  "(GOOS os \<noteq> ''windows'' \<and> Executable os = Inr exe \<and> dst = Join os ipath (Base os exe) \<longrightarrow>
      (sudoInvoked (snd (installBinary os ipath)) \<longrightarrow>
         (removeResult os dst = Some PermissionDenied
          \<or> fst (copyFile os dst) = Some PermissionDenied)
       \<and> (\<exists>post. snd (installBinary os ipath) =
                    removeEvents os dst @ [SysOpen exe] @ snd (copyFile os dst)
                    @ [PrintRequireSudo ipath, RunSudo (sudoCommand dst exe)] @ post
                  \<and> \<not> sudoInvoked post))
    \<and> (removeResult os dst \<noteq> Some PermissionDenied
         \<and> fst (copyFile os dst) \<noteq> Some PermissionDenied
         \<longrightarrow> \<not> sudoInvoked (snd (installBinary os ipath)))
    \<and> (\<forall>m. removeResult os dst = Some (OtherError m) \<longrightarrow>
           installBinary os ipath = (Some (OsFailure (OtherError m)), removeEvents os dst))
    \<and> (\<forall>e. (\<forall>m. removeResult os dst \<noteq> Some (OtherError m)) \<and> Open os exe = Some e \<longrightarrow>
           installBinary os ipath = (Some (OsFailure e), removeEvents os dst @ [SysOpen exe]))
    \<and> (\<forall>m. (\<forall>m'. removeResult os dst \<noteq> Some (OtherError m')) \<and> Open os exe = None
            \<and> fst (copyFile os dst) = Some (OtherError m) \<longrightarrow>
           fst (installBinary os ipath) = Some (OsFailure (OtherError m))
         \<and> \<not> sudoInvoked (snd (installBinary os ipath))))
   \<and> (GOOS os \<noteq> ''windows'' \<and> Executable os = Inl err \<longrightarrow>
        installBinary os ipath = (Some (OsFailure err), []))"
proof (intro conjI impI)
  assume "GOOS os \<noteq> ''windows'' \<and> Executable os = Inl err"
  then show "installBinary os ipath = (Some (OsFailure err), [])"
    by (simp add: installBinary_def)
next
  assume a: "GOOS os \<noteq> ''windows'' \<and> Executable os = Inr exe
             \<and> dst = Join os ipath (Base os exe)"
  let ?before = "removeEvents os dst @ [SysOpen exe] @ snd (copyFile os dst)"
  have eq: "installBinary os ipath =
    (case removeResult os dst of
       Some (OtherError m) \<Rightarrow> (Some (OsFailure (OtherError m)), removeEvents os dst)
     | r \<Rightarrow>
        (case Open os exe of
           Some err \<Rightarrow> (Some (OsFailure err), removeEvents os dst @ [SysOpen exe])
         | None \<Rightarrow>
            (case fst (copyFile os dst) of
               Some (OtherError m) \<Rightarrow> (Some (OsFailure (OtherError m)), ?before)
             | k \<Rightarrow>
                 finishInstall os ipath exe dst
                   (r = Some PermissionDenied \<or> k = Some PermissionDenied) ?before)))"
    using a installBinary_unfold [of os exe dst ipath] by blast
  {
    assume s: "sudoInvoked (snd (installBinary os ipath))"
    show "removeResult os dst = Some PermissionDenied
          \<or> fst (copyFile os dst) = Some PermissionDenied"
      using s copyFile_no_sudo [of os dst]
      by (auto simp: eq finishInstall_plain split: option.splits os_error.splits)
    have "finishInstall os ipath exe dst True ?before = installBinary os ipath"
      using s copyFile_no_sudo [of os dst]
      by (auto simp: eq finishInstall_plain split: option.splits os_error.splits)
    then show "\<exists>post. snd (installBinary os ipath) =
                    removeEvents os dst @ [SysOpen exe] @ snd (copyFile os dst)
                    @ [PrintRequireSudo ipath, RunSudo (sudoCommand dst exe)] @ post
                  \<and> \<not> sudoInvoked post"
      using finishInstall_sudo [of os ipath exe dst ?before] by (metis append.assoc)
  }
  {
    assume "removeResult os dst \<noteq> Some PermissionDenied
            \<and> fst (copyFile os dst) \<noteq> Some PermissionDenied"
    then show "\<not> sudoInvoked (snd (installBinary os ipath))"
      using copyFile_no_sudo [of os dst]
      by (auto simp: eq finishInstall_plain split: option.splits os_error.splits)
  }
  show "\<forall>m. removeResult os dst = Some (OtherError m) \<longrightarrow>
           installBinary os ipath = (Some (OsFailure (OtherError m)), removeEvents os dst)"
    by (simp add: eq)
  show "\<forall>e. (\<forall>m. removeResult os dst \<noteq> Some (OtherError m)) \<and> Open os exe = Some e \<longrightarrow>
           installBinary os ipath = (Some (OsFailure e), removeEvents os dst @ [SysOpen exe])"
    by (auto simp: eq split: option.splits os_error.splits)
  show "\<forall>m. (\<forall>m'. removeResult os dst \<noteq> Some (OtherError m')) \<and> Open os exe = None
            \<and> fst (copyFile os dst) = Some (OtherError m) \<longrightarrow>
           fst (installBinary os ipath) = Some (OsFailure (OtherError m))
         \<and> \<not> sudoInvoked (snd (installBinary os ipath))"
    using copyFile_no_sudo [of os dst]
    by (auto simp: eq split: option.splits os_error.splits)
qed

theorem install_elevation_is_fallback_witness:
  "GOOS rootOwnedOS \<noteq> ''windows''
   \<and> Executable rootOwnedOS = Inr ''/home/u/hfdownloader''
   \<and> sudoInvoked (snd (installBinary rootOwnedOS ''/usr/local/bin/''))
   \<and> removeResult rootOwnedOS ''/usr/local/bin/hfdownloader'' = Some PermissionDenied
   \<and> removeResult linuxOS ''/usr/local/bin/hfdownloader'' = None
   \<and> fst (copyFile linuxOS ''/usr/local/bin/hfdownloader'') = None
   \<and> \<not> sudoInvoked (snd (installBinary linuxOS ''/usr/local/bin/''))
   \<and> removeResult busyOS ''/usr/local/bin/hfdownloader'' = Some (OtherError ''text file busy'')
   \<and> installBinary busyOS ''/usr/local/bin/'' =
       (Some (OsFailure (OtherError ''text file busy'')),
        [SysStat ''/usr/local/bin/hfdownloader'', SysRemove ''/usr/local/bin/hfdownloader''])
   \<and> Open unreadableOS ''/home/u/hfdownloader'' = Some PermissionDenied
   \<and> installBinary unreadableOS ''/usr/local/bin/'' =
       (Some (OsFailure PermissionDenied),
        [SysStat ''/usr/local/bin/hfdownloader'', SysOpen ''/home/u/hfdownloader''])
   \<and> fst (copyFile diskFullOS ''/usr/local/bin/hfdownloader'')
       = Some (OtherError ''no space left on device'')
   \<and> fst (installBinary diskFullOS ''/usr/local/bin/'')
       = Some (OsFailure (OtherError ''no space left on device''))
   \<and> \<not> sudoInvoked (snd (installBinary diskFullOS ''/usr/local/bin/''))
   \<and> Executable noExeOS = Inl (OtherError ''cannot find executable'')
   \<and> installBinary noExeOS ''/usr/local/bin/'' =
       (Some (OsFailure (OtherError ''cannot find executable'')), [])"
proof -
  note defs = linuxOS_def rootOwnedOS_def busyOS_def unreadableOS_def diskFullOS_def noExeOS_def
    removeResult_def removeEvents_def copyFile_def
  have run: "installBinary rootOwnedOS ''/usr/local/bin/'' =
      (None,
       [SysStat ''/usr/local/bin/hfdownloader'', SysRemove ''/usr/local/bin/hfdownloader'',
        SysOpen ''/home/u/hfdownloader'', SysOpenFile ''/usr/local/bin/hfdownloader'',
        PrintRequireSudo ''/usr/local/bin/'',
        RunSudo (sudoCommand ''/usr/local/bin/hfdownloader'' ''/home/u/hfdownloader''),
        LogInstalled ''/usr/local/bin/hfdownloader''])"
    by (simp add: installBinary_def copyStep_def finishInstall_def IsPermission_def Let_def defs)
  have s: "sudoInvoked (snd (installBinary rootOwnedOS ''/usr/local/bin/''))"
    by (simp add: run)
  have 1: "removeResult rootOwnedOS ''/usr/local/bin/hfdownloader'' = Some PermissionDenied"
    using s install_elevation_is_fallback [of rootOwnedOS "''/home/u/hfdownloader''"
        "''/usr/local/bin/hfdownloader''" "''/usr/local/bin/''"]
    by (simp add: defs)
  have 2: "\<not> sudoInvoked (snd (installBinary linuxOS ''/usr/local/bin/''))"
    using install_elevation_is_fallback [of linuxOS "''/home/u/hfdownloader''"
        "''/usr/local/bin/hfdownloader''" "''/usr/local/bin/''"]
    by (simp add: defs)
  have 3: "installBinary busyOS ''/usr/local/bin/'' =
       (Some (OsFailure (OtherError ''text file busy'')),
        [SysStat ''/usr/local/bin/hfdownloader'', SysRemove ''/usr/local/bin/hfdownloader''])"
    using install_elevation_is_fallback [of busyOS "''/home/u/hfdownloader''"
        "''/usr/local/bin/hfdownloader''" "''/usr/local/bin/''"]
    by (simp add: defs)
  have 4: "installBinary unreadableOS ''/usr/local/bin/'' =
       (Some (OsFailure PermissionDenied),
        [SysStat ''/usr/local/bin/hfdownloader'', SysOpen ''/home/u/hfdownloader''])"
    using install_elevation_is_fallback [of unreadableOS "''/home/u/hfdownloader''"
        "''/usr/local/bin/hfdownloader''" "''/usr/local/bin/''"]
    by (simp add: defs)
  have 5: "fst (installBinary diskFullOS ''/usr/local/bin/'')
             = Some (OsFailure (OtherError ''no space left on device''))
           \<and> \<not> sudoInvoked (snd (installBinary diskFullOS ''/usr/local/bin/''))"
    using install_elevation_is_fallback [of diskFullOS "''/home/u/hfdownloader''"
        "''/usr/local/bin/hfdownloader''" "''/usr/local/bin/''"]
    by (simp add: defs)
  have 6: "installBinary noExeOS ''/usr/local/bin/'' =
       (Some (OsFailure (OtherError ''cannot find executable'')), [])"
    using install_elevation_is_fallback [of noExeOS _ _ _ "OtherError ''cannot find executable''"]
    by (simp add: defs)
  show ?thesis
    using s 1 2 3 4 5 6 by (simp add: defs)
qed

text \<open>
  Claim C9: on Windows the install procedure returns the unsupported-platform error and
  nothing else happens: no removal, no copy, no elevated command. A run with the install
  flag ends with that error, and no event of the run changes the file system.
\<close>

theorem install_refused_on_windows:
  assumes "GOOS (ios w) = ''windows''"
  shows "installBinary (ios w) ipath = (Some UnsupportedPlatform, [])
       \<and> (install s \<and> \<not> (justDownload s \<and> args = []) \<longrightarrow>
            fst (Execute w s args) = Fatal (FatalInstall UnsupportedPlatform)
          \<and> occurrences isMutation (snd (Execute w s args)) = 0)"
proof -
  have i: "\<And>p. installBinary (ios w) p = (Some UnsupportedPlatform, [])"
    using assms by (simp add: installBinary_def)
  show ?thesis
    by (auto simp: i Execute_def RunE_def split_beta split: list.splits)
qed

theorem install_refused_on_windows_witness:
  "GOOS (ios windowsWorld) = ''windows''
   \<and> install installCli \<and> \<not> (justDownload installCli \<and> [] = ([] :: string list))
   \<and> installBinary (ios windowsWorld) ''/usr/local/bin/'' = (Some UnsupportedPlatform, [])
   \<and> fst (Execute windowsWorld installCli []) = Fatal (FatalInstall UnsupportedPlatform)
   \<and> occurrences isMutation (snd (Execute windowsWorld installCli [])) = 0"
proof -
  have g: "GOOS (ios windowsWorld) = ''windows''"
    by (simp add: windowsWorld_def plainWorld_def windowsOS_def linuxOS_def)
  have c: "install installCli \<and> \<not> justDownload installCli"
    by (simp add: installCli_def parseFlags_def registerFlags_def DefaultConfig_def)
  show ?thesis
    using install_refused_on_windows [OF g, of "''/usr/local/bin/''" installCli "[]"] g c
    by simp
qed

section \<open>The storage target\<close>

lemma assembleR2_missing:
  "UseR2 c \<Longrightarrow>
   Getenv e ''R2_ACCOUNT_ID'' = [] \<or> Getenv e ''R2_WRITE_ACCESS_KEY_ID'' = []
     \<or> Getenv e ''R2_WRITE_SECRET_ACCESS_KEY'' = [] \<Longrightarrow>
   assembleR2 e c = Inl FatalR2Credentials"
  by (auto simp: assembleR2_def Let_def)

lemma assembleR2_nil: "(assembleR2 e c = Inr None) = (\<not> UseR2 c)"
  by (simp add: assembleR2_def Let_def)

lemma runTarget_missing:
  assumes "UseR2 c"
    and "Getenv (godotenvLoad (dotenv w) (env w)) ''R2_ACCOUNT_ID'' = []
       \<or> Getenv (godotenvLoad (dotenv w) (env w)) ''R2_WRITE_ACCESS_KEY_ID'' = []
       \<or> Getenv (godotenvLoad (dotenv w) (env w)) ''R2_WRITE_SECRET_ACCESS_KEY'' = []"
  shows "fst (runTarget w s c target ds) = Fatal FatalR2Credentials"
    and "occurrences isDownload (snd (runTarget w s c target ds)) = 0"
    and "occurrences isCleanup (snd (runTarget w s c target ds)) = 0"
proof -
  let ?e = "godotenvLoad (dotenv w) (env w)"
  have u: "UseR2 (fst (resolveAuthToken ?e c))" using assms(1) by simp
  have a: "assembleR2 ?e (fst (resolveAuthToken ?e c)) = Inl FatalR2Credentials"
    by (rule assembleR2_missing [OF u assms(2)])
  show "fst (runTarget w s c target ds) = Fatal FatalR2Credentials"
    by (simp add: runTarget_def Let_def split_beta a)
  show "occurrences isDownload (snd (runTarget w s c target ds)) = 0"
    by (simp add: runTarget_def Let_def split_beta a)
  show "occurrences isCleanup (snd (runTarget w s c target ds)) = 0"
    by (simp add: runTarget_def Let_def split_beta a)
qed

text \<open>
  Claim C6, as the code has it: with the remote-storage toggle on and one of
  \<open>R2_ACCOUNT_ID\<close>, \<open>R2_WRITE_ACCESS_KEY_ID\<close>, \<open>R2_WRITE_SECRET_ACCESS_KEY\<close> empty in the
  environment as it stands after the \<open>.env\<close> file is loaded, the assembly of the storage
  target is fatal whatever the other fields of the configuration hold, and no run calls
  the download engine or the cleanup scanner. A run ends with that fatal error exactly
  when it gets as far as the assembly: no install flag, the \<open>Args\<close> check passed, a
  model or dataset name set.
\<close>

theorem missing_r2_credentials_are_fatal:
  assumes "Getenv e ''R2_ACCOUNT_ID'' = [] \<or> Getenv e ''R2_WRITE_ACCESS_KEY_ID'' = []
           \<or> Getenv e ''R2_WRITE_SECRET_ACCESS_KEY'' = []"
  shows "(UseR2 c \<longrightarrow> assembleR2 e c = Inl FatalR2Credentials)
       \<and> (UseR2 (cfg s) \<and> godotenvLoad (dotenv w) (env w) = e \<longrightarrow>
            occurrences isDownload (snd (Execute w s args)) = 0
          \<and> occurrences isCleanup (snd (Execute w s args)) = 0
          \<and> ((fst (Execute w s args) = Fatal FatalR2Credentials)
               = (\<not> install s \<and> targetSet s args)))"
proof (intro conjI impI)
  assume "UseR2 c"
  then show "assembleR2 e c = Inl FatalR2Credentials"
    using assms by (rule assembleR2_missing)
next
  assume h: "UseR2 (cfg s) \<and> godotenvLoad (dotenv w) (env w) = e"
  then have m: "Getenv (godotenvLoad (dotenv w) (env w)) ''R2_ACCOUNT_ID'' = []
       \<or> Getenv (godotenvLoad (dotenv w) (env w)) ''R2_WRITE_ACCESS_KEY_ID'' = []
       \<or> Getenv (godotenvLoad (dotenv w) (env w)) ''R2_WRITE_SECRET_ACCESS_KEY'' = []"
    using assms by simp
  have r: "\<And>c' target ds. UseR2 c' \<Longrightarrow>
             fst (runTarget w s c' target ds) = Fatal FatalR2Credentials
           \<and> occurrences isDownload (snd (runTarget w s c' target ds)) = 0
           \<and> occurrences isCleanup (snd (runTarget w s c' target ds)) = 0"
    using runTarget_missing [OF _ m] by blast
  show "occurrences isDownload (snd (Execute w s args)) = 0"
    using h by (auto simp: Execute_def RunE_def split_beta r split: list.splits option.splits)
  show "occurrences isCleanup (snd (Execute w s args)) = 0"
    using h by (auto simp: Execute_def RunE_def split_beta r split: list.splits option.splits)
  show "(fst (Execute w s args) = Fatal FatalR2Credentials)
        = (\<not> install s \<and> targetSet s args)"
    using h by (auto simp: Execute_def RunE_def targetSet_def split_beta r
        split: list.splits option.splits if_splits)
qed

theorem missing_r2_credentials_are_fatal_witness:
  "Getenv Map.empty ''R2_ACCOUNT_ID'' = []
   \<and> UseR2 (cfg r2Cli) \<and> godotenvLoad (dotenv plainWorld) (env plainWorld) = Map.empty
   \<and> \<not> install r2Cli \<and> targetSet r2Cli []
   \<and> assembleR2 Map.empty (cfg r2Cli) = Inl FatalR2Credentials
   \<and> fst (Execute plainWorld r2Cli []) = Fatal FatalR2Credentials
   \<and> occurrences isDownload (snd (Execute plainWorld r2Cli [])) = 0
   \<and> occurrences isCleanup (snd (Execute plainWorld r2Cli [])) = 0"
proof -
  have g: "Getenv Map.empty ''R2_ACCOUNT_ID'' = [] \<or> Getenv Map.empty ''R2_WRITE_ACCESS_KEY_ID'' = []
           \<or> Getenv Map.empty ''R2_WRITE_SECRET_ACCESS_KEY'' = []"
    by (simp add: Getenv_def)
  have c: "UseR2 (cfg r2Cli) \<and> \<not> install r2Cli \<and> targetSet r2Cli []"
    by (simp add: r2Cli_def parseFlags_def registerFlags_def DefaultConfig_def targetSet_def)
  have e: "godotenvLoad (dotenv plainWorld) (env plainWorld) = Map.empty"
    by (simp add: godotenvLoad_def plainWorld_def)
  show ?thesis
    using missing_r2_credentials_are_fatal [OF g, of "cfg r2Cli" r2Cli plainWorld "[]"] c e
    by (simp add: Getenv_def)
qed

text \<open>
  The claim as the specification states it fails for the runs that end before the
  assembly: \<open>hfdownloader --r2\<close> without a name ends with the usage error, and
  \<open>hfdownloader --r2 -i\<close> installs the binary and ends with \<open>os.Exit(0)\<close>, both with
  the toggle on and no credential in the environment.
\<close>

theorem missing_credentials_before_assembly:
  "UseR2 (cfg r2NoTargetCli) \<and> UseR2 (cfg r2InstallCli)
   \<and> Getenv (godotenvLoad (dotenv plainWorld) (env plainWorld)) ''R2_ACCOUNT_ID'' = []
   \<and> startup (Some ''/home/u'') NotExist (env plainWorld) [F_r2 True] = Inr r2NoTargetCli
   \<and> Execute plainWorld r2NoTargetCli [] = (Returned (Some UsageError), [ShowHelp])
   \<and> main (Some ''/home/u'') NotExist plainWorld [F_r2 True] [] =
       (Fatal (FatalRun UsageError), [ShowHelp])
   \<and> startup (Some ''/home/u'') NotExist (env plainWorld) [F_r2 True, F_install True]
       = Inr r2InstallCli
   \<and> main (Some ''/home/u'') NotExist plainWorld [F_r2 True, F_install True] [] =
       (Exit0,
        [SysStat ''/usr/local/bin/hfdownloader'', SysOpen ''/home/u/hfdownloader'',
         SysOpenFile ''/usr/local/bin/hfdownloader'', SysIoCopy ''/usr/local/bin/hfdownloader'',
         LogInstalled ''/usr/local/bin/hfdownloader''])"
proof -
  have n: "r2NoTargetCli =
      \<lparr> cfg = DefaultConfig\<lparr>UseR2 := True\<rparr>, justDownload = False, install = False,
        installPath = ''/usr/local/bin/'', cleanupCorrupted = False \<rparr>"
    by (simp add: r2NoTargetCli_def parseFlags_def registerFlags_def DefaultConfig_def)
  have c: "r2InstallCli =
      \<lparr> cfg = DefaultConfig\<lparr>UseR2 := True\<rparr>, justDownload = False, install = True,
        installPath = ''/usr/local/bin/'', cleanupCorrupted = False \<rparr>"
    by (simp add: r2InstallCli_def parseFlags_def registerFlags_def DefaultConfig_def)
  have sn: "startup (Some ''/home/u'') NotExist (env plainWorld) [F_r2 True] = Inr r2NoTargetCli"
    by (simp add: startup_def LoadConfig_def r2NoTargetCli_def)
  have sc: "startup (Some ''/home/u'') NotExist (env plainWorld) [F_r2 True, F_install True]
            = Inr r2InstallCli"
    by (simp add: startup_def LoadConfig_def r2InstallCli_def)
  have g: "Getenv (godotenvLoad (dotenv plainWorld) (env plainWorld)) ''R2_ACCOUNT_ID'' = []"
    by (simp add: Getenv_def godotenvLoad_def plainWorld_def)
  have i: "installBinary linuxOS ''/usr/local/bin/'' =
      (None,
       [SysStat ''/usr/local/bin/hfdownloader'', SysOpen ''/home/u/hfdownloader'',
        SysOpenFile ''/usr/local/bin/hfdownloader'', SysIoCopy ''/usr/local/bin/hfdownloader'',
        LogInstalled ''/usr/local/bin/hfdownloader''])"
    by (simp add: installBinary_def copyStep_def copyFile_def finishInstall_def linuxOS_def Let_def)
  have en: "Execute plainWorld r2NoTargetCli [] = (Returned (Some UsageError), [ShowHelp])"
    by (simp add: n Execute_def RunE_def resolveAuthToken_def Getenv_def plainWorld_def
        DefaultConfig_def Let_def)
  have ec: "Execute plainWorld r2InstallCli [] =
      (Exit0,
       [SysStat ''/usr/local/bin/hfdownloader'', SysOpen ''/home/u/hfdownloader'',
        SysOpenFile ''/usr/local/bin/hfdownloader'', SysIoCopy ''/usr/local/bin/hfdownloader'',
        LogInstalled ''/usr/local/bin/hfdownloader''])"
    by (simp add: c Execute_def RunE_def resolveAuthToken_def Getenv_def plainWorld_def i
        DefaultConfig_def Let_def)
  have u: "UseR2 (cfg r2NoTargetCli) \<and> UseR2 (cfg r2InstallCli)"
    by (simp add: n c)
  show ?thesis
    using u g sn sc en ec by (simp add: main_def)
qed

text \<open>
  Claim C7: with the toggle on and the three credentials present the assembly succeeds;
  the bucket name is the one of the configuration if it is not empty, else
  \<open>R2_BUCKET_NAME\<close> if it is not empty, else the account id, and so it is never empty;
  the subfolder is the one of the configuration if it is not empty, else \<open>hf_dataset\<close>.
\<close>

theorem bucket_name_fallback:
  assumes "UseR2 c"
    and "Getenv e ''R2_ACCOUNT_ID'' \<noteq> []"
    and "Getenv e ''R2_WRITE_ACCESS_KEY_ID'' \<noteq> []"
    and "Getenv e ''R2_WRITE_SECRET_ACCESS_KEY'' \<noteq> []"
  shows "\<exists>r. assembleR2 e c = Inr (Some r)
          \<and> BucketName r =
              (if R2BucketName c \<noteq> [] then R2BucketName c
               else if Getenv e ''R2_BUCKET_NAME'' \<noteq> [] then Getenv e ''R2_BUCKET_NAME''
               else Getenv e ''R2_ACCOUNT_ID'')
          \<and> BucketName r \<noteq> []
          \<and> Subfolder r = (if R2Subfolder c \<noteq> [] then R2Subfolder c else ''hf_dataset'')
          \<and> AccountID r = Getenv e ''R2_ACCOUNT_ID''
          \<and> AccessKeyID r = Getenv e ''R2_WRITE_ACCESS_KEY_ID''
          \<and> AccessKeySecret r = Getenv e ''R2_WRITE_SECRET_ACCESS_KEY''
          \<and> Region r = ''auto''"
  using assms by (simp add: assembleR2_def Let_def)

theorem bucket_name_fallback_witness:
  "UseR2 (cfg r2Cli)
   \<and> Getenv r2Env ''R2_ACCOUNT_ID'' \<noteq> []
   \<and> Getenv r2Env ''R2_WRITE_ACCESS_KEY_ID'' \<noteq> []
   \<and> Getenv r2Env ''R2_WRITE_SECRET_ACCESS_KEY'' \<noteq> []
   \<and> R2BucketName (cfg r2Cli) = [] \<and> Getenv r2Env ''R2_BUCKET_NAME'' = []
   \<and> assembleR2 r2Env (cfg r2Cli) = Inr (Some r2Target)
   \<and> BucketName r2Target = ''acct''"
proof -
  have u: "UseR2 (cfg r2Cli)"
    by (simp add: r2Cli_def parseFlags_def registerFlags_def DefaultConfig_def)
  have a: "Getenv r2Env ''R2_ACCOUNT_ID'' \<noteq> []" by (simp add: Getenv_def r2Env_def)
  have k: "Getenv r2Env ''R2_WRITE_ACCESS_KEY_ID'' \<noteq> []" by (simp add: Getenv_def r2Env_def)
  have x: "Getenv r2Env ''R2_WRITE_SECRET_ACCESS_KEY'' \<noteq> []" by (simp add: Getenv_def r2Env_def)
  have v: "Getenv r2Env ''R2_ACCOUNT_ID'' = ''acct''
         \<and> Getenv r2Env ''R2_WRITE_ACCESS_KEY_ID'' = ''key''
         \<and> Getenv r2Env ''R2_WRITE_SECRET_ACCESS_KEY'' = ''secret''
         \<and> Getenv r2Env ''R2_BUCKET_NAME'' = []"
    by (simp add: Getenv_def r2Env_def)
  have f: "R2BucketName (cfg r2Cli) = [] \<and> R2Subfolder (cfg r2Cli) = ''hf_dataset''"
    by (simp add: r2Cli_def parseFlags_def registerFlags_def DefaultConfig_def)
  obtain r where r: "assembleR2 r2Env (cfg r2Cli) = Inr (Some r)"
    "BucketName r = ''acct''" "Subfolder r = ''hf_dataset''" "AccountID r = ''acct''"
    "AccessKeyID r = ''key''" "AccessKeySecret r = ''secret''" "Region r = ''auto''"
    using bucket_name_fallback [OF u a k x] by (auto simp: v f)
  have "r = r2Target" using r by (simp add: r2Target_def)
  then show ?thesis using r u a k x v f by (simp add: r2Target_def)
qed

section \<open>Cleanup mode\<close>

lemma trailingSeps_append_sep: "trailingSeps (p @ ''/'') = Suc (trailingSeps p)"
  by (simp add: trailingSeps_def)

text \<open>
  Claim C5, as the code has it: in cleanup mode the prefix is the subfolder of the
  storage target (the one of the configuration, or \<open>hf_dataset\<close> when that is empty) with
  one separator appended, whatever the subfolder ends with. The prefix ends with one
  separator more than the subfolder: a subfolder without a trailing separator gains
  exactly one. That prefix is what the cleanup scanner is called with.
\<close>

theorem cleanup_prefix_appends_separator:
  assumes "assembleR2 e c = Inr (Some r)"
  shows "cleanupPrefix r = (if R2Subfolder c = [] then ''hf_dataset'' else R2Subfolder c) @ ''/''
       \<and> trailingSeps (cleanupPrefix r) = Suc (trailingSeps (Subfolder r))
       \<and> (trailingSeps (Subfolder r) = 0 \<longrightarrow> trailingSeps (cleanupPrefix r) = 1)
       \<and> (\<exists>rest. snd (cleanupBranch (Some r) res c) =
                    CallCleanup r (cleanupPrefix r) (NumConnections c) # rest)"
proof -
  have s: "Subfolder r = (if R2Subfolder c = [] then ''hf_dataset'' else R2Subfolder c)"
    using assms by (auto simp: assembleR2_def Let_def split: if_splits)
  have p: "cleanupPrefix r = Subfolder r @ ''/''" by (simp add: cleanupPrefix_def)
  have t: "trailingSeps (cleanupPrefix r) = Suc (trailingSeps (Subfolder r))"
    unfolding p by (rule trailingSeps_append_sep)
  have b: "\<exists>rest. snd (cleanupBranch (Some r) res c) =
                    CallCleanup r (cleanupPrefix r) (NumConnections c) # rest"
    by (simp add: cleanupBranch_def split: option.splits)
  show ?thesis using s p t b by simp
qed

theorem cleanup_prefix_appends_separator_witness:
  "assembleR2 r2Env (cfg r2Cli) = Inr (Some r2Target)
   \<and> trailingSeps (Subfolder r2Target) = 0
   \<and> cleanupPrefix r2Target = ''hf_dataset/''
   \<and> trailingSeps (cleanupPrefix r2Target) = 1"
proof -
  have c: "cfg r2Cli =
      DefaultConfig\<lparr>UseR2 := True, ModelName := ''gpt2''\<rparr>"
    by (simp add: r2Cli_def parseFlags_def registerFlags_def DefaultConfig_def)
  have a: "assembleR2 r2Env (cfg r2Cli) = Inr (Some r2Target)"
    by (simp add: c assembleR2_def Getenv_def r2Env_def r2Target_def DefaultConfig_def Let_def)
  have z: "trailingSeps (Subfolder r2Target) = 0"
    by (simp add: r2Target_def trailingSeps_def)
  note t = cleanup_prefix_appends_separator [OF a, of None]
  have p: "cleanupPrefix r2Target = ''hf_dataset/''"
    using t by (simp add: c DefaultConfig_def)
  have "trailingSeps (cleanupPrefix r2Target) = Suc (trailingSeps (Subfolder r2Target))"
    using t by (rule conjunct1 [OF conjunct2])
  then have o: "trailingSeps (cleanupPrefix r2Target) = 1"
    using z by simp
  show ?thesis using a z p o by blast
qed

text \<open>
  The claim as the specification states it fails for a subfolder that already ends in a
  separator: \<open>-d squad --r2 --r2-subfolder data/ --cleanup-corrupted\<close> calls the cleanup
  scanner with the prefix \<open>data//\<close>.
\<close>

theorem cleanup_prefix_duplicates_separator:
  "R2Subfolder (cfg cleanupR2Cli) = ''data/''
   \<and> Execute r2World cleanupR2Cli [] =
       (Returned None,
        [PrintDataset ''squad'',
         PrintSettings ''main'' ''./'' 5 False False [],
         CallCleanup
           \<lparr> AccountID = ''acct'', AccessKeyID = ''key'', AccessKeySecret = ''secret'',
             BucketName = ''acct'', Region = ''auto'', Subfolder = ''data/'' \<rparr>
           ''data//'' 5,
         PrintCleanupCompleted])"
proof -
  have c: "cleanupR2Cli =
      \<lparr> cfg = DefaultConfig\<lparr>DatasetName := ''squad'', UseR2 := True, R2Subfolder := ''data/''\<rparr>,
        justDownload = False, install = False, installPath = ''/usr/local/bin/'',
        cleanupCorrupted = True \<rparr>"
    by (simp add: cleanupR2Cli_def parseFlags_def registerFlags_def DefaultConfig_def)
  have g: "Getenv r2Env ''R2_ACCOUNT_ID'' = ''acct''
         \<and> Getenv r2Env ''R2_WRITE_ACCESS_KEY_ID'' = ''key''
         \<and> Getenv r2Env ''R2_WRITE_SECRET_ACCESS_KEY'' = ''secret''
         \<and> Getenv r2Env ''R2_BUCKET_NAME'' = []
         \<and> Getenv r2Env ''HF_TOKEN'' = []
         \<and> Getenv r2Env ''HUGGING_FACE_HUB_TOKEN'' = []"
    by (simp add: Getenv_def r2Env_def)
  have w: "env r2World = r2Env \<and> dotenv r2World = Map.empty
         \<and> CleanupCorruptedFiles r2World = None"
    by (simp add: r2World_def plainWorld_def)
  show ?thesis
    by (simp add: c w g Execute_def RunE_def runTarget_def godotenvLoad_def resolveAuthToken_def
        assembleR2_def cleanupBranch_def cleanupPrefix_def DefaultConfig_def Let_def)
qed

lemma cleanupBranch_panic:
  "(fst (cleanupBranch r2 res c) = Panic p) = (p = NilDereference \<and> r2 = None)"
  by (auto simp: cleanupBranch_def split: option.splits)

lemma runTarget_panic:
  "(fst (runTarget w s c target ds) = Panic p)
   = (p = NilDereference \<and> cleanupCorrupted s \<and> \<not> UseR2 c)"
proof -
  let ?e = "godotenvLoad (dotenv w) (env w)"
  let ?c = "fst (resolveAuthToken ?e c)"
  have u: "UseR2 ?c = UseR2 c" by simp
  show ?thesis
  proof (cases "assembleR2 ?e ?c")
    case (Inl f)
    then have "UseR2 c" using u by (auto simp: assembleR2_def Let_def split: if_splits)
    with Inl show ?thesis by (simp add: runTarget_def Let_def split_beta)
  next
    case (Inr r2)
    have n: "(r2 = None) = (\<not> UseR2 c)" using assembleR2_nil [of ?e ?c] Inr u by simp
    show ?thesis
    proof (cases "cleanupCorrupted s")
      case True
      with Inr n show ?thesis
        by (simp add: runTarget_def Let_def split_beta cleanupBranch_panic)
    next
      case False
      with Inr show ?thesis
        by (simp add: runTarget_def Let_def split_beta retryLoop_no_panic)
    qed
  qed
qed

text \<open>
  Claim C10: without the remote-storage toggle the storage target is nil, and the
  cleanup branch reads its subfolder without a check, which panics. In the code after the
  name resolution the panic happens exactly when cleanup mode is selected and the toggle
  is off; with the toggle on it cannot happen. In a whole run it happens exactly when,
  in addition, the run gets that far: no install flag and a model or dataset name set.
\<close>

theorem cleanup_needs_storage_target:
  "((assembleR2 e c = Inr None) = (\<not> UseR2 c))
   \<and> ((fst (cleanupBranch r2 res c) = Panic p) = (p = NilDereference \<and> r2 = None))
   \<and> ((fst (runTarget w s c target ds) = Panic p)
        = (p = NilDereference \<and> cleanupCorrupted s \<and> \<not> UseR2 c))
   \<and> ((fst (Execute w s args) = Panic p)
        = (p = NilDereference \<and> cleanupCorrupted s \<and> \<not> UseR2 (cfg s)
           \<and> \<not> install s \<and> targetSet s args))"
proof (intro conjI)
  show "(assembleR2 e c = Inr None) = (\<not> UseR2 c)" by (rule assembleR2_nil)
  show "(fst (cleanupBranch r2 res c) = Panic p) = (p = NilDereference \<and> r2 = None)"
    by (rule cleanupBranch_panic)
  show "(fst (runTarget w s c target ds) = Panic p)
        = (p = NilDereference \<and> cleanupCorrupted s \<and> \<not> UseR2 c)"
    by (rule runTarget_panic)
  show "(fst (Execute w s args) = Panic p)
        = (p = NilDereference \<and> cleanupCorrupted s \<and> \<not> UseR2 (cfg s)
           \<and> \<not> install s \<and> targetSet s args)"
    by (auto simp: Execute_def RunE_def targetSet_def split_beta runTarget_panic
        split: list.splits option.splits if_splits)
qed

theorem cleanup_needs_storage_target_witness:
  "cleanupCorrupted cleanupOnlyCli \<and> \<not> UseR2 (cfg cleanupOnlyCli)
   \<and> \<not> install cleanupOnlyCli \<and> targetSet cleanupOnlyCli []
   \<and> fst (Execute plainWorld cleanupOnlyCli []) = Panic NilDereference
   \<and> UseR2 (cfg cleanupR2Cli)
   \<and> fst (Execute r2World cleanupR2Cli []) \<noteq> Panic NilDereference"
proof -
  have c: "cleanupCorrupted cleanupOnlyCli \<and> \<not> UseR2 (cfg cleanupOnlyCli)
           \<and> \<not> install cleanupOnlyCli \<and> targetSet cleanupOnlyCli []"
    by (simp add: cleanupOnlyCli_def parseFlags_def registerFlags_def DefaultConfig_def
        targetSet_def)
  have d: "UseR2 (cfg cleanupR2Cli)"
    by (simp add: cleanupR2Cli_def parseFlags_def registerFlags_def DefaultConfig_def)
  show ?thesis
    using cleanup_needs_storage_target [where p = NilDereference and w = plainWorld
        and s = cleanupOnlyCli and args = "[]"]
      cleanup_needs_storage_target [where p = NilDereference and w = r2World
        and s = cleanupR2Cli and args = "[]"]
      c d
    by simp
qed

section \<open>A run without a target\<close>

lemma Execute_args_error:
  "justDownload s \<and> args = [] \<Longrightarrow> Execute w s args = (Returned (Some ArgsError), [])"
  by (simp add: Execute_def)

lemma Execute_install:
  assumes "\<not> (justDownload s \<and> args = [])" and "install s"
  shows "fst (Execute w s args) =
           (case fst (installBinary (ios w) (installPath s)) of
              None \<Rightarrow> Exit0
            | Some err \<Rightarrow> Fatal (FatalInstall err))"
    and "occurrences isHelp (snd (Execute w s args)) = 0"
    and "occurrences isDownload (snd (Execute w s args)) = 0"
    and "occurrences isCleanup (snd (Execute w s args)) = 0"
  using assms
  by (auto simp: Execute_def RunE_def split_beta split: list.splits option.splits)

lemma Execute_no_target:
  assumes "namesEmpty s args" and "\<not> (justDownload s \<and> args = [])" and "\<not> install s"
  shows "fst (Execute w s args) = Returned (Some UsageError)"
    and "occurrences isHelp (snd (Execute w s args)) = 1"
    and "occurrences isDownload (snd (Execute w s args)) = 0"
    and "occurrences isCleanup (snd (Execute w s args)) = 0"
  using assms
  by (auto simp: Execute_def RunE_def namesEmpty_def isHelp_def split_beta
      split: list.splits if_splits)

text \<open>
  Claim C3, as the code has it: when both names are empty, the run ends in one of three
  ways. With \<open>-j\<close> and no positional argument the \<open>Args\<close> check fails first: the run
  ends with the argument error and nothing is printed, no help text either. Otherwise,
  with the install flag the install procedure runs and ends the process, with
  \<open>os.Exit(0)\<close> or with the error of the installation, before the names are looked at
  and without help text. Otherwise the run shows the help text once and ends with the
  usage error. In all three cases neither the download engine nor the cleanup scanner is
  called.
\<close>

theorem unset_target_is_usage_error:
  assumes "namesEmpty s args"
  shows "(justDownload s \<and> args = [] \<longrightarrow>
            Execute w s args = (Returned (Some ArgsError), []))
       \<and> (\<not> (justDownload s \<and> args = []) \<and> install s \<longrightarrow>
            fst (Execute w s args) =
              (case fst (installBinary (ios w) (installPath s)) of
                 None \<Rightarrow> Exit0
               | Some err \<Rightarrow> Fatal (FatalInstall err))
          \<and> occurrences isHelp (snd (Execute w s args)) = 0)
       \<and> (\<not> (justDownload s \<and> args = []) \<and> \<not> install s \<longrightarrow>
            fst (Execute w s args) = Returned (Some UsageError)
          \<and> occurrences isHelp (snd (Execute w s args)) = 1)
       \<and> occurrences isDownload (snd (Execute w s args)) = 0
       \<and> occurrences isCleanup (snd (Execute w s args)) = 0"
proof -
  consider (noarg) "justDownload s \<and> args = []"
    | (inst) "\<not> (justDownload s \<and> args = [])" "install s"
    | (plain) "\<not> (justDownload s \<and> args = [])" "\<not> install s"
    by blast
  then show ?thesis
  proof cases
    case noarg
    then show ?thesis by (simp add: Execute_args_error)
  next
    case inst
    then show ?thesis using Execute_install [OF inst, of w] by auto
  next
    case plain
    then show ?thesis using Execute_no_target [OF assms plain, of w] by auto
  qed
qed

theorem unset_target_is_usage_error_witness:
  "namesEmpty noFlagsCli [] \<and> \<not> justDownload noFlagsCli \<and> \<not> install noFlagsCli
   \<and> fst (Execute plainWorld noFlagsCli []) = Returned (Some UsageError)
   \<and> occurrences isHelp (snd (Execute plainWorld noFlagsCli [])) = 1
   \<and> occurrences isDownload (snd (Execute plainWorld noFlagsCli [])) = 0
   \<and> namesEmpty justDownloadCli [] \<and> justDownload justDownloadCli
   \<and> Execute plainWorld justDownloadCli [] = (Returned (Some ArgsError), [])
   \<and> namesEmpty installCli [] \<and> \<not> justDownload installCli \<and> install installCli
   \<and> fst (Execute plainWorld installCli []) = Exit0
   \<and> occurrences isHelp (snd (Execute plainWorld installCli [])) = 0"
proof -
  have n: "namesEmpty noFlagsCli [] \<and> \<not> justDownload noFlagsCli \<and> \<not> install noFlagsCli"
    by (simp add: namesEmpty_def noFlagsCli_def parseFlags_def registerFlags_def DefaultConfig_def)
  have j: "namesEmpty justDownloadCli [] \<and> justDownload justDownloadCli"
    by (simp add: namesEmpty_def justDownloadCli_def parseFlags_def registerFlags_def
        DefaultConfig_def)
  have i: "namesEmpty installCli [] \<and> \<not> justDownload installCli \<and> install installCli
           \<and> installPath installCli = ''/usr/local/bin/''"
    by (simp add: namesEmpty_def installCli_def parseFlags_def registerFlags_def DefaultConfig_def)
  have b: "fst (installBinary (ios plainWorld) ''/usr/local/bin/'') = None"
    by (simp add: plainWorld_def installBinary_def copyStep_def copyFile_def finishInstall_def
        linuxOS_def Let_def)
  have 1: "fst (Execute plainWorld noFlagsCli []) = Returned (Some UsageError)
         \<and> occurrences isHelp (snd (Execute plainWorld noFlagsCli [])) = 1
         \<and> occurrences isDownload (snd (Execute plainWorld noFlagsCli [])) = 0"
    using unset_target_is_usage_error [of noFlagsCli "[]" plainWorld] n by simp
  have 2: "Execute plainWorld justDownloadCli [] = (Returned (Some ArgsError), [])"
    using unset_target_is_usage_error [of justDownloadCli "[]" plainWorld] j by simp
  have 3: "fst (Execute plainWorld installCli []) = Exit0
         \<and> occurrences isHelp (snd (Execute plainWorld installCli [])) = 0"
    using unset_target_is_usage_error [of installCli "[]" plainWorld] i b by simp
  show ?thesis using n j i 1 2 3 by simp
qed

text \<open>
  The claim as the specification states it fails for \<open>hfdownloader -i\<close>: both names are
  empty, the binary is installed, the process ends with \<open>os.Exit(0)\<close>, and neither the
  help text nor a usage error appears.
\<close>

theorem install_without_target_exits_zero:
  "namesEmpty installCli []
   \<and> startup (Some ''/home/u'') NotExist (env plainWorld) [F_install True] = Inr installCli
   \<and> main (Some ''/home/u'') NotExist plainWorld [F_install True] [] =
       (Exit0,
        [SysStat ''/usr/local/bin/hfdownloader'', SysOpen ''/home/u/hfdownloader'',
         SysOpenFile ''/usr/local/bin/hfdownloader'', SysIoCopy ''/usr/local/bin/hfdownloader'',
         LogInstalled ''/usr/local/bin/hfdownloader''])
   \<and> fst (Execute plainWorld installCli []) = Exit0
   \<and> occurrences isHelp (snd (Execute plainWorld installCli [])) = 0"
proof -
  have c: "installCli =
      \<lparr> cfg = DefaultConfig, justDownload = False, install = True,
        installPath = ''/usr/local/bin/'', cleanupCorrupted = False \<rparr>"
    by (simp add: installCli_def parseFlags_def registerFlags_def DefaultConfig_def)
  have s: "startup (Some ''/home/u'') NotExist (env plainWorld) [F_install True] = Inr installCli"
    by (simp add: startup_def LoadConfig_def installCli_def)
  have i: "installBinary linuxOS ''/usr/local/bin/'' =
      (None,
       [SysStat ''/usr/local/bin/hfdownloader'', SysOpen ''/home/u/hfdownloader'',
        SysOpenFile ''/usr/local/bin/hfdownloader'', SysIoCopy ''/usr/local/bin/hfdownloader'',
        LogInstalled ''/usr/local/bin/hfdownloader''])"
    by (simp add: installBinary_def copyStep_def copyFile_def finishInstall_def linuxOS_def Let_def)
  have e: "Execute plainWorld installCli [] =
      (Exit0,
       [SysStat ''/usr/local/bin/hfdownloader'', SysOpen ''/home/u/hfdownloader'',
        SysOpenFile ''/usr/local/bin/hfdownloader'', SysIoCopy ''/usr/local/bin/hfdownloader'',
        LogInstalled ''/usr/local/bin/hfdownloader''])"
    by (simp add: c Execute_def RunE_def resolveAuthToken_def Getenv_def plainWorld_def i
        DefaultConfig_def Let_def)
  have n: "namesEmpty installCli []"
    by (simp add: c namesEmpty_def DefaultConfig_def)
  show ?thesis
    using n s e by (simp add: main_def isHelp_def)
qed

end
